theory Spec2Isabelle
  imports Main "HOL-Library.Char_ord" "HOL-Library.List_Lexorder" "HOL-Library.Option_ord"
    "HOL-Library.Multiset"
begin

section \<open>Values, strings and the constants of utils/constants.js\<close>

text \<open>
  Object ids are natural numbers, points in time are milliseconds as natural numbers,
  and strings are lists of characters read as ASCII text. JavaScript numbers are modelled
  by unbounded integers: the counters and semesters the handlers touch are integer
  valued.
\<close>

type_synonym oid = nat
type_synonym time = nat

definition STUDENT :: string where "STUDENT = ''student''"
definition ADMIN :: string where "ADMIN = ''admin''"

definition PENDING :: string where "PENDING = ''pending''"
definition APPROVED :: string where "APPROVED = ''approved''"
definition REJECTED :: string where "REJECTED = ''rejected''"

text \<open>A value as it appears in a serialized document.\<close>

datatype jsval = JNull | JBool bool | JNum int | JStr string | JId oid | JArr "jsval list"

text \<open>Truthiness of a request string: only the empty string is falsy.\<close>

definition truthy :: "string \<Rightarrow> bool" where
  "truthy s = (s \<noteq> [])"

definition is_ws :: "char \<Rightarrow> bool" where
  "is_ws c = (c \<in> set [CHR 0x09, CHR 0x0A, CHR 0x0B, CHR 0x0C, CHR 0x0D, CHR 0x20])"

text \<open>\<open>String.prototype.trim\<close> on ASCII text: the blanks are tab, line feed, vertical tab, form
  feed, carriage return and space.\<close>

definition trim :: "string \<Rightarrow> string" where
  "trim s = rev (dropWhile is_ws (rev (dropWhile is_ws s)))"

text \<open>\<open>String.prototype.split\<close> with a one-character separator.\<close>

fun split_on :: "char \<Rightarrow> string \<Rightarrow> string list" where
  "split_on c [] = [[]]"
| "split_on c (x # xs) =
     (if x = c then [] # split_on c xs
      else (case split_on c xs of [] \<Rightarrow> [[x]] | w # ws \<Rightarrow> (x # w) # ws))"

text \<open>\<open>String.prototype.startsWith\<close>.\<close>

definition startsWith :: "string \<Rightarrow> string \<Rightarrow> bool" where
  "startsWith s p = (take (length p) s = p)"

section \<open>Regular expressions built from request strings\<close>

text \<open>
  The handlers pass a request string to \<open>new RegExp(s, 'i')\<close> and hand the result to the
  database as a field condition: an unanchored, case-insensitive search. The model
  interprets the patterns made of ordinary characters and the wildcard \<open>.\<close>; what the
  engine does with any other metacharacter is the parameter \<open>ext\<close>, which returns
  \<open>None\<close> where the constructor throws a SyntaxError.
\<close>

type_synonym rx_ext = "string \<Rightarrow> (string \<Rightarrow> bool) option"

datatype atom = Lit char | AnyChar

definition meta_chars :: "char list" where
  "meta_chars = [CHR 0x5C, CHR ''^'', CHR ''$'', CHR ''.'', CHR ''*'', CHR ''+'', CHR ''?'',
                 CHR ''('', CHR '')'', CHR ''['', CHR '']'', CHR ''{'', CHR ''}'', CHR ''|'']"

fun compile_simple :: "string \<Rightarrow> atom list option" where
  "compile_simple [] = Some []"
| "compile_simple (c # cs) =
     (if c = CHR ''.'' then map_option ((#) AnyChar) (compile_simple cs)
      else if c \<in> set meta_chars then None
      else map_option ((#) (Lit c)) (compile_simple cs))"

definition to_lower :: "char \<Rightarrow> char" where
  "to_lower c = (if CHR ''A'' \<le> c \<and> c \<le> CHR ''Z'' then char_of (of_char c + (32::nat)) else c)"

fun atom_match :: "atom \<Rightarrow> char \<Rightarrow> bool" where
  "atom_match (Lit c) x = (to_lower c = to_lower x)"
| "atom_match AnyChar x = (x \<noteq> CHR 0x0A \<and> x \<noteq> CHR 0x0D)"

fun match_here :: "atom list \<Rightarrow> string \<Rightarrow> bool" where
  "match_here [] s = True"
| "match_here (a # as) [] = False"
| "match_here (a # as) (x # xs) = (atom_match a x \<and> match_here as xs)"

fun search :: "atom list \<Rightarrow> string \<Rightarrow> bool" where
  "search as [] = match_here as []"
| "search as (x # xs) = (match_here as (x # xs) \<or> search as xs)"

definition RegExp_i :: "rx_ext \<Rightarrow> string \<Rightarrow> (string \<Rightarrow> bool) option" where
  "RegExp_i ext p = (case compile_simple p of Some as \<Rightarrow> Some (search as) | None \<Rightarrow> ext p)"


section \<open>Documents (models/*.js)\<close>

text \<open>
  A user document. The password is optional in a loaded document: the schema declares it
  \<open>select: false\<close>, so a query that does not ask for it returns the document without it.
\<close>

record user =
  u_id :: oid
  u_name :: string
  u_email :: string
  u_password :: "string option"
  u_role :: string
  u_branch :: "string option"
  u_semester :: "int option"
  u_avatar :: string
  u_isActive :: bool
  u_uploadedNotes :: "oid list"
  u_bookmarks :: "oid list"
  u_createdAt :: time

record note_doc =
  n_id :: oid
  n_title :: string
  n_description :: "string option"
  n_subject :: string
  n_semester :: int
  n_branch :: string
  n_fileUrl :: string
  n_fileType :: string
  n_fileSize :: "nat option"
  n_cloudinaryPublicId :: string
  n_uploadedBy :: oid
  n_status :: string
  n_views :: nat
  n_downloads :: nat
  n_bookmarkedBy :: "oid list"
  n_tags :: "string list"
  n_rating :: int
  n_ratingCount :: nat
  n_createdAt :: time

text \<open>
  A job posting with the fields the handlers read or write; salary, stipend, skills and
  eligibility are carried by the database and not touched by any handler modelled here.
\<close>

record job =
  j_id :: oid
  j_title :: string
  j_company :: string
  j_description :: string
  j_type :: string
  j_location :: string
  j_locationType :: string
  j_applicationDeadline :: time
  j_postedBy :: oid
  j_status :: string
  j_applicants :: "oid list"
  j_views :: nat
  j_createdAt :: time

record application =
  a_id :: oid
  a_job :: oid
  a_applicant :: oid
  a_status :: string
  a_coverLetter :: "string option"
  a_appliedAt :: time
  a_createdAt :: time

record bookmark =
  b_id :: oid
  b_user :: oid
  b_note :: oid
  b_createdAt :: time

text \<open>
  The media store: the assets it holds, each a resource type with a public id, and the
  public ids for which a \<open>destroy\<close> call is rejected (the store is unreachable or refuses).
\<close>

record cloudinary =
  c_assets :: "(string \<times> string) list"
  c_rejects :: "string list"

text \<open>The collections, the media store and the supply of fresh object ids.\<close>

record db =
  Users :: "user list"
  Notes :: "note_doc list"
  Jobs :: "job list"
  Applications :: "application list"
  Bookmarks :: "bookmark list"
  Cloud :: cloudinary
  nextId :: oid

section \<open>Responses\<close>

text \<open>What a handler's \<open>catch\<close> block can receive: \<open>error.message\<close> of one of these.\<close>

datatype thrown = ValidationError | RegExpSyntaxError | NegativeSkip | DestroyRejected

datatype msg = Text string | ErrorMessage thrown

record 'a response =
  r_status :: nat
  r_success :: bool
  r_message :: "msg option"
  r_data :: "'a option"

definition ok :: "nat \<Rightarrow> msg option \<Rightarrow> 'a option \<Rightarrow> 'a response" where
  "ok code m d = \<lparr>r_status = code, r_success = True, r_message = m, r_data = d\<rparr>"

definition fail :: "nat \<Rightarrow> string \<Rightarrow> 'a response" where
  "fail code m = \<lparr>r_status = code, r_success = False, r_message = Some (Text m), r_data = None\<rparr>"

text \<open>The \<open>catch\<close> block of every handler.\<close>

definition caught :: "thrown \<Rightarrow> 'a response" where
  "caught e = \<lparr>r_status = 500, r_success = False, r_message = Some (ErrorMessage e), r_data = None\<rparr>"

section \<open>Queries of the object-document mapper\<close>

definition findById :: "('a \<Rightarrow> oid) \<Rightarrow> 'a list \<Rightarrow> oid \<Rightarrow> 'a option" where
  "findById ident xs i = find (\<lambda>x. ident x = i) xs"

text \<open>An update of the first document with the given id, as \<open>findByIdAndUpdate\<close> does.\<close>

fun updateById :: "('a \<Rightarrow> oid) \<Rightarrow> oid \<Rightarrow> ('a \<Rightarrow> 'a) \<Rightarrow> 'a list \<Rightarrow> 'a list" where
  "updateById ident i f [] = []"
| "updateById ident i f (x # xs) =
     (if ident x = i then f x # xs else x # updateById ident i f xs)"

text \<open>Removal of the first document that satisfies a condition.\<close>

fun deleteFirst :: "('a \<Rightarrow> bool) \<Rightarrow> 'a list \<Rightarrow> 'a list" where
  "deleteFirst P [] = []"
| "deleteFirst P (x # xs) = (if P x then xs else x # deleteFirst P xs)"

text \<open>
  \<open>.sort({[field]: -1 or 1})\<close> on a key: ascending, or descending with ties left in the
  order found.
\<close>

definition sort_dir :: "bool \<Rightarrow> ('a \<Rightarrow> 'k::linorder) \<Rightarrow> 'a list \<Rightarrow> 'a list" where
  "sort_dir desc k xs = (if desc then rev (sort_key k (rev xs)) else sort_key k xs)"

text \<open>
  Serialization of a user document: \<open>toObject\<close> lists the fields the document holds, and
  the schema's \<open>toJSON\<close> deletes the password from that object.
\<close>

definition opt_field :: "string \<Rightarrow> ('a \<Rightarrow> jsval) \<Rightarrow> 'a option \<Rightarrow> (string \<times> jsval) list" where
  "opt_field k f v = (case v of None \<Rightarrow> [] | Some x \<Rightarrow> [(k, f x)])"

definition toObject :: "user \<Rightarrow> (string \<times> jsval) list" where
  "toObject u =
     [(''_id'', JId (u_id u)), (''name'', JStr (u_name u)), (''email'', JStr (u_email u))]
     @ opt_field ''password'' JStr (u_password u)
     @ [(''role'', JStr (u_role u))]
     @ opt_field ''branch'' JStr (u_branch u)
     @ opt_field ''semester'' JNum (u_semester u)
     @ [(''avatar'', JStr (u_avatar u)), (''isActive'', JBool (u_isActive u)),
        (''uploadedNotes'', JArr (map JId (u_uploadedNotes u))),
        (''bookmarks'', JArr (map JId (u_bookmarks u))),
        (''createdAt'', JNum (int (u_createdAt u)))]"

definition toJSON :: "user \<Rightarrow> (string \<times> jsval) list" where
  "toJSON u = filter (\<lambda>kv. fst kv \<noteq> ''password'') (toObject u)"

text \<open>The projection every user query applies unless the password is asked for.\<close>

definition select_default :: "user \<Rightarrow> user" where
  "select_default u = u\<lparr>u_password := None\<rparr>"

text \<open>\<open>.select('-password')\<close>.\<close>

definition select_minus_password :: "user \<Rightarrow> user" where
  "select_minus_password u = u\<lparr>u_password := None\<rparr>"

definition User_findById :: "db \<Rightarrow> oid \<Rightarrow> user option" where
  "User_findById d i = map_option select_default (findById u_id (Users d) i)"

text \<open>
  \<open>populate(path, 'name email branch')\<close>: the referenced user with its id and the named
  fields only, or nothing when the reference dangles.
\<close>

definition populate_user :: "string list \<Rightarrow> db \<Rightarrow> oid \<Rightarrow> (string \<times> jsval) list option" where
  "populate_user names d i =
     map_option (\<lambda>u. filter (\<lambda>kv. fst kv \<in> set (''_id'' # names)) (toObject u))
       (User_findById d i)"

section \<open>Pagination\<close>

text \<open>
  \<open>page\<close> and \<open>limit\<close> arrive as strings of decimal digits and are read as their value
  (what both the arithmetic coercion and \<open>parseInt\<close> give for such a string); an absent
  parameter takes the handler's default. The database rejects a negative skip, and a
  limit of zero means no limit.
\<close>

definition page_slice :: "nat \<Rightarrow> nat \<Rightarrow> 'a list \<Rightarrow> thrown + 'a list" where
  "page_slice page limit xs =
     (let skip = (int page - 1) * int limit
      in if skip < 0 then Inl NegativeSkip
         else Inr ((if limit = 0 then (\<lambda>ys. ys) else take limit) (drop (nat skip) xs)))"

text \<open>
  \<open>Math.ceil(total / limit)\<close>; a division by zero gives Infinity or NaN, which the JSON
  response carries as null.
\<close>

definition page_count :: "nat \<Rightarrow> nat \<Rightarrow> nat option" where
  "page_count n limit = (if limit = 0 then None else Some ((n + limit - 1) div limit))"

record pagination =
  pg_total :: nat
  pg_page :: nat
  pg_pages :: "nat option"
  pg_limit :: "nat option"

section \<open>Admin dashboard (controllers/adminController.js)\<close>

record overview =
  totalUsers :: nat
  totalNotes :: nat
  totalDownloads :: nat
  totalViews :: nat

record contributor =
  tc_id :: oid
  tc_name :: string
  tc_email :: string
  tc_branch :: "string option"
  notesCount :: nat

record stats =
  st_overview :: overview
  notesByBranch :: "(string \<times> nat) list"
  notesBySemester :: "(int \<times> nat) list"
  topContributors :: "contributor list"
  recentNotes :: "(note_doc \<times> (string \<times> jsval) list option) list"

text \<open>\<open>$group\<close> by a key with a count of the members of each group.\<close>

definition group_count :: "('a \<Rightarrow> 'k) \<Rightarrow> 'a list \<Rightarrow> ('k \<times> nat) list" where
  "group_count key xs =
     map (\<lambda>k. (k, length (filter (\<lambda>x. key x = k) xs))) (remdups (map key xs))"

definition getDashboardStats :: "db \<Rightarrow> stats response" where
  "getDashboardStats d =
     (let totalUsers = length (filter (\<lambda>u. u_role u = ''student'') (Users d));
          totalNotes = length (Notes d);
          totalDownloads = sum_list (map n_downloads (Notes d));
          totalViews = sum_list (map n_views (Notes d));
          notesByBranch = sort_dir True snd (group_count n_branch (Notes d));
          notesBySemester = sort_dir False fst (group_count n_semester (Notes d));
          topContributors =
            take 5 (sort_dir True notesCount
              (map (\<lambda>u. \<lparr>tc_id = u_id u, tc_name = u_name u, tc_email = u_email u,
                          tc_branch = u_branch u,
                          notesCount = length (filter (\<lambda>n. n_uploadedBy n = u_id u) (Notes d))\<rparr>)
                   (Users d)));
          recentNotes =
            map (\<lambda>n. (n, populate_user [''name'', ''email''] d (n_uploadedBy n)))
              (take 5 (sort_dir True n_createdAt (Notes d)))
      in ok 200 None
           (Some \<lparr>st_overview = \<lparr>totalUsers = totalUsers, totalNotes = totalNotes,
                                  totalDownloads = totalDownloads, totalViews = totalViews\<rparr>,
                   notesByBranch = notesByBranch, notesBySemester = notesBySemester,
                   topContributors = topContributors, recentNotes = recentNotes\<rparr>))"

subsection \<open>The user listing\<close>

text \<open>The envelope of a listing: the page of items and the pagination block.\<close>

record 'a listing =
  items :: "'a list"
  pagination :: pagination

text \<open>
  A filter built from a request string with \<open>if (s) ... new RegExp(s, 'i')\<close>: no condition
  for an absent or empty string, a thrown SyntaxError where the constructor rejects it.
\<close>

definition rx_filter :: "rx_ext \<Rightarrow> string option \<Rightarrow> thrown + (string \<Rightarrow> bool) option" where
  "rx_filter ext p =
     (case p of
        None \<Rightarrow> Inr None
      | Some s \<Rightarrow>
          if truthy s
          then (case RegExp_i ext s of None \<Rightarrow> Inl RegExpSyntaxError | Some m \<Rightarrow> Inr (Some m))
          else Inr None)"

text \<open>\<open>if (v) query.field = v\<close> on a string field; \<open>norm\<close> is the schema's setter for the field.\<close>

definition eq_filter :: "(string \<Rightarrow> string) \<Rightarrow> string option \<Rightarrow> string \<Rightarrow> bool" where
  "eq_filter norm p v = (case p of None \<Rightarrow> True | Some s \<Rightarrow> if truthy s then v = norm s else True)"

definition rx_holds :: "(string \<Rightarrow> bool) option \<Rightarrow> string list \<Rightarrow> bool" where
  "rx_holds m vs = (case m of None \<Rightarrow> True | Some f \<Rightarrow> list_ex f vs)"

record users_query =
  uq_page :: "nat option"
  uq_limit :: "nat option"
  uq_search :: "string option"
  uq_role :: "string option"

definition getAllUsers :: "rx_ext \<Rightarrow> db \<Rightarrow> users_query \<Rightarrow> (string \<times> jsval) list listing response" where
  "getAllUsers ext d q =
     (let page = (case uq_page q of None \<Rightarrow> 1 | Some p \<Rightarrow> p);
          limit = (case uq_limit q of None \<Rightarrow> 20 | Some l \<Rightarrow> l)
      in case rx_filter ext (uq_search q) of
           Inl e \<Rightarrow> caught e
         | Inr srch \<Rightarrow>
             let matching =
                   filter (\<lambda>u. rx_holds srch [u_name u, u_email u] \<and>
                                eq_filter (\<lambda>s. s) (uq_role q) (u_role u)) (Users d)
             in (case page_slice page limit
                        (sort_dir True u_createdAt (map select_minus_password matching)) of
                   Inl e \<Rightarrow> caught e
                 | Inr users \<Rightarrow>
                     ok 200 None
                       (Some \<lparr>items = map toJSON users,
                               pagination =
                                 \<lparr>pg_total = length matching, pg_page = page,
                                  pg_pages = page_count (length matching) limit,
                                  pg_limit = None\<rparr>\<rparr>)))"

section \<open>Notes (controllers/noteController.js)\<close>


text \<open>
  The sort of a note listing on the scalar fields of the schema, a missing value before
  any present one. The array fields (\<open>tags\<close>, \<open>bookmarkedBy\<close>), \<open>updatedAt\<close> and names that
  are no field of a note leave the documents in the order found.
\<close>

definition sort_notes :: "string \<Rightarrow> bool \<Rightarrow> note_doc list \<Rightarrow> note_doc list" where
  "sort_notes sortBy desc xs =
     (if sortBy = ''createdAt'' then sort_dir desc n_createdAt xs
      else if sortBy = ''title'' then sort_dir desc n_title xs
      else if sortBy = ''subject'' then sort_dir desc n_subject xs
      else if sortBy = ''branch'' then sort_dir desc n_branch xs
      else if sortBy = ''semester'' then sort_dir desc n_semester xs
      else if sortBy = ''views'' then sort_dir desc n_views xs
      else if sortBy = ''downloads'' then sort_dir desc n_downloads xs
      else if sortBy = ''rating'' then sort_dir desc n_rating xs
      else if sortBy = ''ratingCount'' then sort_dir desc n_ratingCount xs
      else if sortBy = ''_id'' then sort_dir desc n_id xs
      else if sortBy = ''description'' then sort_dir desc n_description xs
      else if sortBy = ''fileUrl'' then sort_dir desc n_fileUrl xs
      else if sortBy = ''fileType'' then sort_dir desc n_fileType xs
      else if sortBy = ''fileSize'' then sort_dir desc n_fileSize xs
      else if sortBy = ''cloudinaryPublicId'' then sort_dir desc n_cloudinaryPublicId xs
      else if sortBy = ''uploadedBy'' then sort_dir desc n_uploadedBy xs
      else if sortBy = ''status'' then sort_dir desc n_status xs
      else xs)"




text \<open>
  The body of an update request: each field absent or given; the text fields as strings,
  the semester as a number.
\<close>

record note_patch =
  p_title :: "string option"
  p_description :: "string option"
  p_subject :: "string option"
  p_semester :: "int option"
  p_branch :: "string option"
  p_tags :: "string option"

text \<open>\<open>given || stored\<close> for a string and for a number.\<close>

definition or_str :: "string option \<Rightarrow> string \<Rightarrow> string" where
  "or_str given stored = (case given of None \<Rightarrow> stored | Some s \<Rightarrow> if truthy s then s else stored)"

definition or_opt :: "string option \<Rightarrow> string option \<Rightarrow> string option" where
  "or_opt given stored =
     (case given of None \<Rightarrow> stored | Some s \<Rightarrow> if truthy s then Some s else stored)"

definition or_num :: "int option \<Rightarrow> int \<Rightarrow> int" where
  "or_num given stored = (case given of None \<Rightarrow> stored | Some k \<Rightarrow> if k \<noteq> 0 then k else stored)"

text \<open>The validators of the note schema, run on the whole document by \<open>save\<close>.\<close>

definition note_valid :: "note_doc \<Rightarrow> bool" where
  "note_valid n =
     (n_title n \<noteq> [] \<and> 3 \<le> length (n_title n) \<and> length (n_title n) \<le> 100 \<and>
      (case n_description n of None \<Rightarrow> True | Some s \<Rightarrow> length s \<le> 500) \<and>
      n_subject n \<noteq> [] \<and>
      1 \<le> n_semester n \<and> n_semester n \<le> 8 \<and>
      n_branch n \<noteq> [] \<and>
      n_fileUrl n \<noteq> [] \<and> n_fileType n \<noteq> [] \<and> n_cloudinaryPublicId n \<noteq> [] \<and>
      n_status n \<in> set [''pending'', ''approved'', ''rejected''] \<and>
      0 \<le> n_rating n \<and> n_rating n \<le> 5)"

text \<open>
  The assignments of \<open>updateNote\<close>. The schema trims the text fields and each tag whenever
  they are set.
\<close>

definition assign_fields :: "note_patch \<Rightarrow> note_doc \<Rightarrow> note_doc" where
  "assign_fields p n =
     (let n1 = n\<lparr>n_title := trim (or_str (p_title p) (n_title n))\<rparr>;
          n2 = n1\<lparr>n_description := map_option trim (or_opt (p_description p) (n_description n1))\<rparr>;
          n3 = n2\<lparr>n_subject := trim (or_str (p_subject p) (n_subject n2))\<rparr>;
          n4 = n3\<lparr>n_semester := or_num (p_semester p) (n_semester n3)\<rparr>;
          n5 = n4\<lparr>n_branch := trim (or_str (p_branch p) (n_branch n4))\<rparr>
      in case p_tags p of
           None \<Rightarrow> n5
         | Some t \<Rightarrow>
             if truthy t
             then n5\<lparr>n_tags := map trim (map trim (split_on CHR '','' t))\<rparr>
             else n5)"

definition updateNote :: "db \<Rightarrow> user \<Rightarrow> oid \<Rightarrow> note_patch \<Rightarrow> note_doc response \<times> db" where
  "updateNote d caller i p =
     (case findById n_id (Notes d) i of
        None \<Rightarrow> (fail 404 ''Note not found'', d)
      | Some n \<Rightarrow>
          if n_uploadedBy n \<noteq> u_id caller \<and> u_role caller \<noteq> ''admin''
          then (fail 403 ''Not authorized to update this note'', d)
          else
            let n' = assign_fields p n
            in if note_valid n'
               then (ok 200 (Some (Text ''Note updated successfully'')) (Some n'),
                     d\<lparr>Notes := updateById n_id i (\<lambda>_. n') (Notes d)\<rparr>)
               else (caught ValidationError, d))"

text \<open>\<open>cloudinary.uploader.destroy(publicId, {resource_type})\<close>.\<close>

definition destroy :: "cloudinary \<Rightarrow> string \<Rightarrow> string \<Rightarrow> thrown + cloudinary" where
  "destroy c pid rtype =
     (if pid \<in> set (c_rejects c) then Inl DestroyRejected
      else Inr (c\<lparr>c_assets := removeAll (rtype, pid) (c_assets c)\<rparr>))"

definition resource_type :: "note_doc \<Rightarrow> string" where
  "resource_type n = (if startsWith (n_fileType n) ''image/'' then ''image'' else ''raw'')"

definition deleteNote :: "db \<Rightarrow> user \<Rightarrow> oid \<Rightarrow> unit response \<times> db" where
  "deleteNote d caller i =
     (case findById n_id (Notes d) i of
        None \<Rightarrow> (fail 404 ''Note not found'', d)
      | Some n \<Rightarrow>
          if n_uploadedBy n \<noteq> u_id caller \<and> u_role caller \<noteq> ''admin''
          then (fail 403 ''Not authorized to delete this note'', d)
          else
            (case destroy (Cloud d) (n_cloudinaryPublicId n) (resource_type n) of
               Inl e \<Rightarrow> (caught e, d)
             | Inr c \<Rightarrow>
                 let d1 = d\<lparr>Cloud := c\<rparr>;
                     d2 = d1\<lparr>Users :=
                              updateById u_id (n_uploadedBy n)
                                (\<lambda>u. u\<lparr>u_uploadedNotes := removeAll (n_id n) (u_uploadedNotes u)\<rparr>)
                                (Users d1)\<rparr>;
                     d3 = d2\<lparr>Notes := deleteFirst (\<lambda>x. n_id x = i) (Notes d2)\<rparr>
                 in (ok 200 (Some (Text ''Note deleted successfully'')) None, d3)))"

text \<open>
  The loop of \<open>deleteUser\<close> over the user's notes: each note's file is destroyed and its
  row deleted before the next note is looked at. A rejected \<open>destroy\<close> leaves the loop
  with the database as the earlier iterations made it.
\<close>

fun delete_user_notes :: "note_doc list \<Rightarrow> db \<Rightarrow> thrown option \<times> db" where
  "delete_user_notes [] d = (None, d)"
| "delete_user_notes (n # ns) d =
     (case destroy (Cloud d) (n_cloudinaryPublicId n) (resource_type n) of
        Inl e \<Rightarrow> (Some e, d)
      | Inr c \<Rightarrow>
          delete_user_notes ns
            (d\<lparr>Cloud := c, Notes := deleteFirst (\<lambda>x. n_id x = n_id n) (Notes d)\<rparr>))"

definition deleteUser :: "db \<Rightarrow> oid \<Rightarrow> unit response \<times> db" where
  "deleteUser d i =
     (case User_findById d i of
        None \<Rightarrow> (fail 404 ''User not found'', d)
      | Some u \<Rightarrow>
          if u_role u = ''admin'' then (fail 400 ''Cannot delete admin users'', d)
          else
            let userNotes = filter (\<lambda>n. n_uploadedBy n = u_id u) (Notes d)
            in (case delete_user_notes userNotes d of
                  (Some e, d1) \<Rightarrow> (caught e, d1)
                | (None, d1) \<Rightarrow>
                    (ok 200 (Some (Text ''User and associated notes deleted successfully'')) None,
                     d1\<lparr>Users := deleteFirst (\<lambda>x. u_id x = i) (Users d1)\<rparr>)))"

section \<open>Jobs (controllers/jobController.js)\<close>

record jobs_query =
  jq_type :: "string option"
  jq_location :: "string option"
  jq_locationType :: "string option"
  jq_search :: "string option"
  jq_status :: "string option"
  jq_page :: "nat option"
  jq_limit :: "nat option"
  jq_sortBy :: "string option"
  jq_order :: "string option"

text \<open>
  The sort of a job listing on the fields of a posting carried here; any other name leaves
  the documents in the order found.
\<close>

definition sort_jobs :: "string \<Rightarrow> bool \<Rightarrow> job list \<Rightarrow> job list" where
  "sort_jobs sortBy desc xs =
     (if sortBy = ''createdAt'' then sort_dir desc j_createdAt xs
      else if sortBy = ''title'' then sort_dir desc j_title xs
      else if sortBy = ''company'' then sort_dir desc j_company xs
      else if sortBy = ''description'' then sort_dir desc j_description xs
      else if sortBy = ''type'' then sort_dir desc j_type xs
      else if sortBy = ''location'' then sort_dir desc j_location xs
      else if sortBy = ''locationType'' then sort_dir desc j_locationType xs
      else if sortBy = ''applicationDeadline'' then sort_dir desc j_applicationDeadline xs
      else if sortBy = ''status'' then sort_dir desc j_status xs
      else if sortBy = ''views'' then sort_dir desc j_views xs
      else if sortBy = ''_id'' then sort_dir desc j_id xs
      else if sortBy = ''postedBy'' then sort_dir desc j_postedBy xs
      else xs)"

definition job_query_holds ::
  "time \<Rightarrow> string \<Rightarrow> string option \<Rightarrow> (string \<Rightarrow> bool) option \<Rightarrow> string option \<Rightarrow>
   (string \<Rightarrow> bool) option \<Rightarrow> job \<Rightarrow> bool"
where
  "job_query_holds now st ty loc lty srch j =
     (j_status j = st \<and>
      eq_filter (\<lambda>s. s) ty (j_type j) \<and>
      rx_holds loc [j_location j] \<and>
      eq_filter (\<lambda>s. s) lty (j_locationType j) \<and>
      rx_holds srch [j_title j, j_company j, j_description j] \<and>
      now \<le> j_applicationDeadline j)"

text \<open>\<open>now\<close> is the value of \<open>new Date()\<close> when the query is built.\<close>

definition getJobs ::
  "rx_ext \<Rightarrow> time \<Rightarrow> db \<Rightarrow> jobs_query \<Rightarrow> (job \<times> (string \<times> jsval) list option) listing response"
where
  "getJobs ext now d q =
     (let st = (case jq_status q of None \<Rightarrow> ''active'' | Some s \<Rightarrow> s);
          page = (case jq_page q of None \<Rightarrow> 1 | Some p \<Rightarrow> p);
          limit = (case jq_limit q of None \<Rightarrow> 12 | Some l \<Rightarrow> l);
          sortBy = (case jq_sortBy q of None \<Rightarrow> ''createdAt'' | Some s \<Rightarrow> s);
          ord = (case jq_order q of None \<Rightarrow> ''desc'' | Some s \<Rightarrow> s)
      in case rx_filter ext (jq_location q) of
           Inl e \<Rightarrow> caught e
         | Inr loc \<Rightarrow>
            (case rx_filter ext (jq_search q) of
               Inl e \<Rightarrow> caught e
             | Inr srch \<Rightarrow>
                 let matching =
                       filter (job_query_holds now st (jq_type q) loc (jq_locationType q) srch)
                         (Jobs d)
                 in (case page_slice page limit (sort_jobs sortBy (ord = ''desc'') matching) of
                       Inl e \<Rightarrow> caught e
                     | Inr jobs \<Rightarrow>
                         ok 200 None
                           (Some \<lparr>items =
                                    map (\<lambda>j. (j, populate_user [''name'', ''email''] d (j_postedBy j)))
                                      jobs,
                                   pagination =
                                     \<lparr>pg_total = length matching, pg_page = page,
                                      pg_pages = page_count (length matching) limit,
                                      pg_limit = Some limit\<rparr>\<rparr>))))"

text \<open>
  \<open>Application.create\<close>: the schema's validators run first (a cover letter of more than
  1000 characters is rejected), then the document is stored under a fresh id with the
  schema's defaults.
\<close>

definition Application_create ::
  "time \<Rightarrow> db \<Rightarrow> oid \<Rightarrow> oid \<Rightarrow> string option \<Rightarrow> thrown + (application \<times> db)"
where
  "Application_create now d jid uid coverLetter =
     (if (case coverLetter of None \<Rightarrow> True | Some s \<Rightarrow> length s \<le> 1000)
      then
        let a = \<lparr>a_id = nextId d, a_job = jid, a_applicant = uid, a_status = ''applied'',
                 a_coverLetter = coverLetter, a_appliedAt = now, a_createdAt = now\<rparr>
        in Inr (a, d\<lparr>Applications := Applications d @ [a], nextId := Suc (nextId d)\<rparr>)
      else Inl ValidationError)"

definition applyForJob ::
  "time \<Rightarrow> db \<Rightarrow> user \<Rightarrow> oid \<Rightarrow> string option \<Rightarrow> application response \<times> db"
where
  "applyForJob now d caller jid coverLetter =
     (case findById j_id (Jobs d) jid of
        None \<Rightarrow> (fail 404 ''Job not found'', d)
      | Some j \<Rightarrow>
          if j_applicationDeadline j < now
          then (fail 400 ''Application deadline has passed'', d)
          else
            (case find (\<lambda>a. a_job a = jid \<and> a_applicant a = u_id caller) (Applications d) of
               Some existing \<Rightarrow> (fail 400 ''You have already applied for this job'', d)
             | None \<Rightarrow>
                (case Application_create now d jid (u_id caller) coverLetter of
                   Inl e \<Rightarrow> (caught e, d)
                 | Inr (a, d1) \<Rightarrow>
                     (ok 201 (Some (Text ''Application submitted successfully'')) (Some a),
                      d1\<lparr>Jobs :=
                           updateById j_id jid
                             (\<lambda>x. x\<lparr>j_applicants := j_applicants x @ [u_id caller],
                                     j_views := j_views x + 1\<rparr>)
                             (Jobs d1)\<rparr>))))"

section \<open>Bookmarks (controllers/bookmarkController.js)\<close>

definition Bookmark_findOne :: "db \<Rightarrow> oid \<Rightarrow> oid \<Rightarrow> bookmark option" where
  "Bookmark_findOne d uid nid = find (\<lambda>b. b_user b = uid \<and> b_note b = nid) (Bookmarks d)"

definition addBookmark :: "time \<Rightarrow> db \<Rightarrow> user \<Rightarrow> oid \<Rightarrow> bookmark response \<times> db" where
  "addBookmark now d caller noteId =
     (case findById n_id (Notes d) noteId of
        None \<Rightarrow> (fail 404 ''Note not found'', d)
      | Some n \<Rightarrow>
         (case Bookmark_findOne d (u_id caller) noteId of
            Some existing \<Rightarrow> (fail 400 ''Note already bookmarked'', d)
          | None \<Rightarrow>
              let b = \<lparr>b_id = nextId d, b_user = u_id caller, b_note = noteId, b_createdAt = now\<rparr>;
                  d1 = d\<lparr>Bookmarks := Bookmarks d @ [b], nextId := Suc (nextId d)\<rparr>;
                  d2 = d1\<lparr>Users :=
                           updateById u_id (u_id caller)
                             (\<lambda>u. u\<lparr>u_bookmarks := u_bookmarks u @ [noteId]\<rparr>) (Users d1)\<rparr>;
                  d3 = d2\<lparr>Notes :=
                           updateById n_id noteId
                             (\<lambda>x. x\<lparr>n_bookmarkedBy := n_bookmarkedBy x @ [u_id caller]\<rparr>) (Notes d2)\<rparr>
              in (ok 201 (Some (Text ''Bookmark added successfully'')) (Some b), d3)))"

definition removeBookmark :: "db \<Rightarrow> user \<Rightarrow> oid \<Rightarrow> unit response \<times> db" where
  "removeBookmark d caller noteId =
     (case Bookmark_findOne d (u_id caller) noteId of
        None \<Rightarrow> (fail 404 ''Bookmark not found'', d)
      | Some b \<Rightarrow>
          let d1 = d\<lparr>Bookmarks :=
                     deleteFirst (\<lambda>x. b_user x = u_id caller \<and> b_note x = noteId) (Bookmarks d)\<rparr>;
              d2 = d1\<lparr>Users :=
                       updateById u_id (u_id caller)
                         (\<lambda>u. u\<lparr>u_bookmarks := removeAll noteId (u_bookmarks u)\<rparr>) (Users d1)\<rparr>;
              d3 = d2\<lparr>Notes :=
                       updateById n_id noteId
                         (\<lambda>x. x\<lparr>n_bookmarkedBy := removeAll (u_id caller) (n_bookmarkedBy x)\<rparr>)
                         (Notes d2)\<rparr>
          in (ok 200 (Some (Text ''Bookmark removed successfully'')) None, d3))"

text \<open>
  The bookmarks of the caller, newest first, each replaced by its populated note; a
  bookmark whose note no longer exists populates to null and is filtered out.
\<close>

definition getMyBookmarks ::
  "db \<Rightarrow> user \<Rightarrow> (note_doc \<times> (string \<times> jsval) list option) list response"
where
  "getMyBookmarks d caller =
     (let bookmarks =
            sort_dir True b_createdAt (filter (\<lambda>b. b_user b = u_id caller) (Bookmarks d));
          populated =
            map (\<lambda>b. map_option
                        (\<lambda>n. (n, populate_user [''name'', ''email'', ''branch''] d (n_uploadedBy n)))
                        (findById n_id (Notes d) (b_note b)))
                bookmarks;
          notes = map the (filter (\<lambda>x. x \<noteq> None) populated)
      in ok 200 None (Some notes))"

definition checkBookmark :: "db \<Rightarrow> user \<Rightarrow> oid \<Rightarrow> bool response" where
  "checkBookmark d caller noteId =
     ok 200 None (Some (Bookmark_findOne d (u_id caller) noteId \<noteq> None))"

section \<open>A small database for concrete runs\<close>

definition alice :: user where
  "alice = \<lparr>u_id = 1, u_name = ''Alice'', u_email = ''alice@example.com'',
             u_password = Some ''$2a$10$hashA'', u_role = ''student'', u_branch = Some ''CSE'',
             u_semester = Some 3, u_avatar = ''a.png'', u_isActive = True,
             u_uploadedNotes = [10, 11], u_bookmarks = [], u_createdAt = 100\<rparr>"

definition bob :: user where
  "bob = \<lparr>u_id = 2, u_name = ''Bob'', u_email = ''bob@example.com'',
           u_password = Some ''$2a$10$hashB'', u_role = ''student'', u_branch = Some ''ECE'',
           u_semester = Some 5, u_avatar = ''b.png'', u_isActive = True,
           u_uploadedNotes = [], u_bookmarks = [10], u_createdAt = 200\<rparr>"

definition root :: user where
  "root = \<lparr>u_id = 3, u_name = ''Root'', u_email = ''root@example.com'',
            u_password = Some ''$2a$10$hashR'', u_role = ''admin'', u_branch = None,
            u_semester = None, u_avatar = ''r.png'', u_isActive = True,
            u_uploadedNotes = [], u_bookmarks = [], u_createdAt = 50\<rparr>"

definition note10 :: note_doc where
  "note10 = \<lparr>n_id = 10, n_title = ''Joins'', n_description = Some ''old'', n_subject = ''DBMS'',
              n_semester = 3, n_branch = ''CSE'', n_fileUrl = ''https://files/10.pdf'',
              n_fileType = ''application/pdf'', n_fileSize = Some 2048,
              n_cloudinaryPublicId = ''notes/10'', n_uploadedBy = 1, n_status = ''approved'',
              n_views = 4, n_downloads = 2, n_bookmarkedBy = [2], n_tags = [''sql''],
              n_rating = 0, n_ratingCount = 0, n_createdAt = 300\<rparr>"

definition note11 :: note_doc where
  "note11 = \<lparr>n_id = 11, n_title = ''Diagram'', n_description = None, n_subject = ''Networks'',
              n_semester = 4, n_branch = ''CSE'', n_fileUrl = ''https://files/11.png'',
              n_fileType = ''image/png'', n_fileSize = Some 512,
              n_cloudinaryPublicId = ''notes/11'', n_uploadedBy = 1, n_status = ''pending'',
              n_views = 1, n_downloads = 0, n_bookmarkedBy = [], n_tags = [],
              n_rating = 0, n_ratingCount = 0, n_createdAt = 400\<rparr>"

definition job20 :: job where
  "job20 = \<lparr>j_id = 20, j_title = ''Backend intern'', j_company = ''Acme'',
             j_description = ''Build services for the platform'', j_type = ''Internship'',
             j_location = ''Pune'', j_locationType = ''Remote'', j_applicationDeadline = 2000,
             j_postedBy = 3, j_status = ''active'', j_applicants = [], j_views = 0,
             j_createdAt = 500\<rparr>"

definition job21 :: job where
  "job21 = \<lparr>j_id = 21, j_title = ''Data analyst'', j_company = ''Globex'',
             j_description = ''Reports and dashboards for sales'', j_type = ''Job'',
             j_location = ''Delhi'', j_locationType = ''On-site'', j_applicationDeadline = 900,
             j_postedBy = 3, j_status = ''active'', j_applicants = [], j_views = 0,
             j_createdAt = 600\<rparr>"

definition bm30 :: bookmark where
  "bm30 = \<lparr>b_id = 30, b_user = 2, b_note = 10, b_createdAt = 700\<rparr>"

text \<open>
  Alice owns two notes, Bob has bookmarked the first, Root is an admin and has posted two
  jobs. The media store rejects the deletion of the second note's file.
\<close>

definition ex_db :: db where
  "ex_db = \<lparr>Users = [alice, bob, root], Notes = [note10, note11], Jobs = [job20, job21],
             Applications = [], Bookmarks = [bm30],
             Cloud = \<lparr>c_assets = [(''raw'', ''notes/10''), (''image'', ''notes/11'')],
                      c_rejects = [''notes/11'']\<rparr>,
             nextId = 31\<rparr>"

definition no_ext :: rx_ext where
  "no_ext p = None"

definition all_users :: users_query where
  "all_users = \<lparr>uq_page = None, uq_limit = None, uq_search = None, uq_role = None\<rparr>"

definition jobs_default :: jobs_query where
  "jobs_default = \<lparr>jq_type = None, jq_location = None, jq_locationType = None, jq_search = None,
                    jq_status = None, jq_page = None, jq_limit = None, jq_sortBy = None,
                    jq_order = None\<rparr>"

definition root_profile :: "(string \<times> jsval) list" where
  "root_profile = [(''_id'', JId 3), (''name'', JStr ''Root''), (''email'', JStr ''root@example.com'')]"


definition alice_profile :: "(string \<times> jsval) list" where
  "alice_profile = [(''_id'', JId 1), (''name'', JStr ''Alice''),
                    (''email'', JStr ''alice@example.com''), (''branch'', JStr ''CSE'')]"

definition app31 :: application where
  "app31 = \<lparr>a_id = 31, a_job = 20, a_applicant = 2, a_status = ''applied'',
             a_coverLetter = Some ''hi'', a_appliedAt = 1000, a_createdAt = 1000\<rparr>"

definition patch_empty_description :: note_patch where
  "patch_empty_description =
     \<lparr>p_title = None, p_description = Some [], p_subject = None, p_semester = None,
      p_branch = None, p_tags = None\<rparr>"

definition patch_title_tags :: note_patch where
  "patch_title_tags =
     \<lparr>p_title = Some ''  Inner joins '', p_description = None, p_subject = None,
      p_semester = Some 0, p_branch = None, p_tags = Some ''sql, joins''\<rparr>"

definition patch_nothing :: note_patch where
  "patch_nothing =
     \<lparr>p_title = None, p_description = None, p_subject = None, p_semester = None,
      p_branch = None, p_tags = None\<rparr>"

text \<open>The database with the first note's title stored with a blank on either side.\<close>

definition ex_db_padded :: db where
  "ex_db_padded = ex_db\<lparr>Notes := [note10\<lparr>n_title := '' Joins ''\<rparr>, note11]\<rparr>"

section \<open>The words of the specification\<close>


text \<open>Text without a blank at either end, which is how the schema's trim leaves text.\<close>

definition no_outer_blank :: "string \<Rightarrow> bool" where
  "no_outer_blank s = (s = [] \<or> (\<not> is_ws (hd s) \<and> \<not> is_ws (last s)))"

section \<open>Auxiliary facts\<close>

lemma toJSON_no_password: "''password'' \<notin> fst ` set (toJSON u)"
  by (auto simp: toJSON_def)

lemma page_slice_subset: "page_slice p l xs = Inr ys \<Longrightarrow> set ys \<subseteq> set xs"
  by (auto simp: page_slice_def Let_def split: if_splits dest: in_set_takeD in_set_dropD)

lemma set_sort_dir [simp]: "set (sort_dir b k xs) = set xs"
  by (simp add: sort_dir_def)

lemma getAllUsers_items:
  assumes "r_data (getAllUsers ext d q) = Some r" and "obj \<in> set (items r)"
  shows "\<exists>u. obj = toJSON u"
  using assms
  by (auto simp: getAllUsers_def Let_def caught_def ok_def split: sum.splits)

lemma length_filter_disjoint:
  "(\<And>x. P x \<Longrightarrow> \<not> Q x) \<Longrightarrow> length (filter P xs) + length (filter Q xs) \<le> length xs"
  by (induction xs) auto





lemma set_sort_jobs [simp]: "set (sort_jobs k b xs) = set xs"
  by (simp add: sort_jobs_def)



lemma length_sort_dir [simp]: "length (sort_dir b k xs) = length xs"
  by (simp add: sort_dir_def)

lemma length_sort_jobs [simp]: "length (sort_jobs k b xs) = length xs"
  by (simp add: sort_jobs_def)

lemma length_sort_notes [simp]: "length (sort_notes k b xs) = length xs"
  by (simp add: sort_notes_def)

lemma getJobs_Some:
  assumes "r_data (getJobs ext now d q) = Some r"
  obtains loc srch js where
    "rx_filter ext (jq_location q) = Inr loc" "rx_filter ext (jq_search q) = Inr srch"
    "page_slice (case jq_page q of None \<Rightarrow> 1 | Some p \<Rightarrow> p) (case jq_limit q of None \<Rightarrow> 12 | Some l \<Rightarrow> l)
       (sort_jobs (case jq_sortBy q of None \<Rightarrow> ''createdAt'' | Some s \<Rightarrow> s)
          ((case jq_order q of None \<Rightarrow> ''desc'' | Some s \<Rightarrow> s) = ''desc'')
          (filter (job_query_holds now (case jq_status q of None \<Rightarrow> ''active'' | Some s \<Rightarrow> s)
                     (jq_type q) loc (jq_locationType q) srch) (Jobs d))) = Inr js"
    "items r = map (\<lambda>j. (j, populate_user [''name'', ''email''] d (j_postedBy j))) js"
    "pg_total (pagination r) =
       length (filter (job_query_holds now (case jq_status q of None \<Rightarrow> ''active'' | Some s \<Rightarrow> s)
                     (jq_type q) loc (jq_locationType q) srch) (Jobs d))"
proof (cases "rx_filter ext (jq_location q)")
  case (Inl e)
  with assms show ?thesis by (simp add: getJobs_def Let_def caught_def)
next
  case loc: (Inr loc)
  show ?thesis
  proof (cases "rx_filter ext (jq_search q)")
    case (Inl e)
    with assms loc show ?thesis by (simp add: getJobs_def Let_def caught_def)
  next
    case srch: (Inr srch)
    show ?thesis
    proof (cases "page_slice (case jq_page q of None \<Rightarrow> 1 | Some p \<Rightarrow> p) (case jq_limit q of None \<Rightarrow> 12 | Some l \<Rightarrow> l)
       (sort_jobs (case jq_sortBy q of None \<Rightarrow> ''createdAt'' | Some s \<Rightarrow> s)
          ((case jq_order q of None \<Rightarrow> ''desc'' | Some s \<Rightarrow> s) = ''desc'')
          (filter (job_query_holds now (case jq_status q of None \<Rightarrow> ''active'' | Some s \<Rightarrow> s)
                     (jq_type q) loc (jq_locationType q) srch) (Jobs d)))")
      case (Inl e)
      with assms loc srch show ?thesis by (simp add: getJobs_def Let_def caught_def)
    next
      case (Inr js)
      with assms loc srch have "items r = map (\<lambda>j. (j, populate_user [''name'', ''email''] d (j_postedBy j))) js"
        "pg_total (pagination r) =
       length (filter (job_query_holds now (case jq_status q of None \<Rightarrow> ''active'' | Some s \<Rightarrow> s)
                     (jq_type q) loc (jq_locationType q) srch) (Jobs d))"
        by (auto simp add: getJobs_def Let_def ok_def)
      with that loc srch Inr show ?thesis by blast
    qed
  qed
qed

lemma length_filter_mono:
  "(\<And>x. P x \<Longrightarrow> Q x) \<Longrightarrow> length (filter P xs) \<le> length (filter Q xs)"
  by (induction xs) auto





lemma findById_updateById:
  assumes "\<And>x. ident (f x) = ident x"
  shows "findById ident (updateById ident i f xs) k =
           (if k = i then map_option f (findById ident xs i) else findById ident xs k)"
  using assms by (induction xs) (auto simp: findById_def)

lemma length_updateById [simp]: "length (updateById ident i f xs) = length xs"
  by (induction xs) auto

lemma dropWhile_fixed: "xs = [] \<or> \<not> P (hd xs) \<Longrightarrow> dropWhile P xs = xs"
  by (cases xs) auto

lemma hd_dropWhile_not: "dropWhile P xs = [] \<or> \<not> P (hd (dropWhile P xs))"
  by (induction xs) auto

lemma trim_trim: "trim (trim s) = trim s"
proof -
  let ?u = "dropWhile is_ws s"
  let ?t = "rev (dropWhile is_ws (rev ?u))"
  have split: "?u = ?t @ rev (takeWhile is_ws (rev ?u))"
    by (metis rev_append rev_rev_ident takeWhile_dropWhile_id)
  have "?t = [] \<or> \<not> is_ws (hd ?t)"
  proof (cases "?t = []")
    case True
    then show ?thesis by simp
  next
    case False
    with split have "hd ?t = hd ?u" by (metis hd_append2)
    moreover have "?u \<noteq> []"
    proof
      assume a: "?u = []"
      have "?t = rev (dropWhile is_ws (rev []))" by (simp only: a)
      with False show False by simp
    qed
    ultimately show ?thesis using hd_dropWhile_not[of is_ws s] by metis
  qed
  then have "dropWhile is_ws ?t = ?t" by (rule dropWhile_fixed)
  then show ?thesis by (simp add: trim_def)
qed

lemma updateNote_200:
  assumes "updateNote d c i p = (r, d')" and "r_status r = 200"
  obtains n where "findById n_id (Notes d) i = Some n"
    "\<not> (n_uploadedBy n \<noteq> u_id c \<and> u_role c \<noteq> ''admin'')"
    "note_valid (assign_fields p n)"
    "r = ok 200 (Some (Text ''Note updated successfully'')) (Some (assign_fields p n))"
    "d' = d\<lparr>Notes := updateById n_id i (\<lambda>_. assign_fields p n) (Notes d)\<rparr>"
proof (cases "findById n_id (Notes d) i")
  case None
  with assms show ?thesis by (auto simp: updateNote_def fail_def)
next
  case (Some n)
  show ?thesis
  proof (cases "n_uploadedBy n \<noteq> u_id c \<and> u_role c \<noteq> ''admin''")
    case True
    with assms Some show ?thesis by (auto simp: updateNote_def fail_def)
  next
    case auth: False
    show ?thesis
    proof (cases "note_valid (assign_fields p n)")
      case True
      with assms Some auth have
        "r = ok 200 (Some (Text ''Note updated successfully'')) (Some (assign_fields p n))"
        "d' = d\<lparr>Notes := updateById n_id i (\<lambda>_. assign_fields p n) (Notes d)\<rparr>"
        by (auto simp: updateNote_def Let_def)
      with that Some auth True show ?thesis by blast
    next
      case False
      with assms Some auth show ?thesis by (auto simp: updateNote_def Let_def caught_def)
    qed
  qed
qed

lemma findById_ident: "findById ident xs i = Some x \<Longrightarrow> ident x = i"
  by (auto simp: findById_def dest: find_Some_iff[THEN iffD1])

lemma assign_fields_id [simp]: "n_id (assign_fields p n) = n_id n"
  by (simp add: assign_fields_def Let_def split: option.splits)

lemma findById_replace:
  assumes "findById ident xs i = Some x" and "ident y = i"
  shows "findById ident (updateById ident i (\<lambda>_. y) xs) k =
           (if k = i then Some y else findById ident xs k)"
  using assms by (induction xs) (auto simp: findById_def)

lemma assign_title: "n_title (assign_fields p n) = trim (or_str (p_title p) (n_title n))"
  by (simp add: assign_fields_def Let_def split: option.splits)

lemma assign_description:
  "n_description (assign_fields p n) = map_option trim (or_opt (p_description p) (n_description n))"
  by (simp add: assign_fields_def Let_def split: option.splits)

lemma assign_subject: "n_subject (assign_fields p n) = trim (or_str (p_subject p) (n_subject n))"
  by (simp add: assign_fields_def Let_def split: option.splits)

lemma assign_semester: "n_semester (assign_fields p n) = or_num (p_semester p) (n_semester n)"
  by (simp add: assign_fields_def Let_def split: option.splits)

lemma assign_branch: "n_branch (assign_fields p n) = trim (or_str (p_branch p) (n_branch n))"
  by (simp add: assign_fields_def Let_def split: option.splits)

lemma assign_tags:
  "n_tags (assign_fields p n) =
     (case p_tags p of None \<Rightarrow> n_tags n
      | Some t \<Rightarrow> if t = [] then n_tags n else map trim (split_on CHR '','' t))"
  by (simp add: assign_fields_def Let_def truthy_def trim_trim split: option.splits)

lemma assign_frame:
  "n_fileUrl (assign_fields p n) = n_fileUrl n \<and> n_fileType (assign_fields p n) = n_fileType n \<and>
   n_fileSize (assign_fields p n) = n_fileSize n \<and>
   n_cloudinaryPublicId (assign_fields p n) = n_cloudinaryPublicId n \<and>
   n_uploadedBy (assign_fields p n) = n_uploadedBy n \<and> n_status (assign_fields p n) = n_status n \<and>
   n_views (assign_fields p n) = n_views n \<and> n_downloads (assign_fields p n) = n_downloads n \<and>
   n_bookmarkedBy (assign_fields p n) = n_bookmarkedBy n \<and>
   n_rating (assign_fields p n) = n_rating n \<and> n_ratingCount (assign_fields p n) = n_ratingCount n \<and>
   n_createdAt (assign_fields p n) = n_createdAt n"
  by (simp add: assign_fields_def Let_def split: option.splits)

lemma destroy_cases:
  "destroy c pid rt = (if pid \<in> set (c_rejects c) then Inl DestroyRejected
                        else Inr (c\<lparr>c_assets := removeAll (rt, pid) (c_assets c)\<rparr>))"
  by (simp add: destroy_def)

lemma delete_user_notes_fail:
  "delete_user_notes ns d = (Some e, d1) \<Longrightarrow>
   \<exists>pre n post.
      ns = pre @ n # post \<and> e = DestroyRejected \<and>
      n_cloudinaryPublicId n \<in> set (c_rejects (Cloud d)) \<and>
      (\<forall>m \<in> set pre. n_cloudinaryPublicId m \<notin> set (c_rejects (Cloud d))) \<and>
      Notes d1 = fold (\<lambda>m. deleteFirst (\<lambda>x. n_id x = n_id m)) pre (Notes d) \<and>
      c_assets (Cloud d1) =
        fold (\<lambda>m. removeAll (resource_type m, n_cloudinaryPublicId m)) pre (c_assets (Cloud d)) \<and>
      c_rejects (Cloud d1) = c_rejects (Cloud d) \<and>
      Users d1 = Users d \<and> Jobs d1 = Jobs d \<and> Applications d1 = Applications d \<and>
      Bookmarks d1 = Bookmarks d \<and> nextId d1 = nextId d \<and> (pre = [] \<longrightarrow> d1 = d)"
proof (induction ns arbitrary: d)
  case Nil
  then show ?case by simp
next
  case (Cons x xs)
  show ?case
  proof (cases "n_cloudinaryPublicId x \<in> set (c_rejects (Cloud d))")
    case True
    with Cons.prems have "e = DestroyRejected" "d1 = d"
      by (simp_all add: destroy_cases)
    with True show ?thesis
      by (intro exI[of _ "[]"] exI[of _ x] exI[of _ xs]) simp
  next
    case False
    let ?d2 = "d\<lparr>Cloud := (Cloud d)\<lparr>c_assets := removeAll (resource_type x, n_cloudinaryPublicId x)
                                                  (c_assets (Cloud d))\<rparr>,
                  Notes := deleteFirst (\<lambda>y. n_id y = n_id x) (Notes d)\<rparr>"
    from False Cons.prems have "delete_user_notes xs ?d2 = (Some e, d1)"
      by (simp add: destroy_cases)
    from Cons.IH[OF this] obtain pre n post where
      h: "xs = pre @ n # post" "e = DestroyRejected"
      "n_cloudinaryPublicId n \<in> set (c_rejects (Cloud ?d2))"
      "\<forall>m \<in> set pre. n_cloudinaryPublicId m \<notin> set (c_rejects (Cloud ?d2))"
      "Notes d1 = fold (\<lambda>m. deleteFirst (\<lambda>x. n_id x = n_id m)) pre (Notes ?d2)"
      "c_assets (Cloud d1) =
        fold (\<lambda>m. removeAll (resource_type m, n_cloudinaryPublicId m)) pre (c_assets (Cloud ?d2))"
      "c_rejects (Cloud d1) = c_rejects (Cloud ?d2)"
      "Users d1 = Users ?d2" "Jobs d1 = Jobs ?d2" "Applications d1 = Applications ?d2"
      "Bookmarks d1 = Bookmarks ?d2" "nextId d1 = nextId ?d2"
      by blast
    with False show ?thesis
      by (intro exI[of _ "x # pre"] exI[of _ n] exI[of _ post]) simp
  qed
qed

lemma User_findById_id: "User_findById d i = Some u \<Longrightarrow> u_id u = i"
  by (auto simp: User_findById_def select_default_def findById_def dest: find_Some_iff[THEN iffD1])

lemma find_append_last: "find P xs = None \<Longrightarrow> P b \<Longrightarrow> find P (xs @ [b]) = Some b"
  by (induction xs) (auto split: if_splits)

lemma deleteFirst_append_last: "find P xs = None \<Longrightarrow> P b \<Longrightarrow> deleteFirst P (xs @ [b]) = xs"
  by (induction xs) (auto split: if_splits)

lemma updateById_twice:
  assumes "\<And>x. ident (f x) = ident x"
  shows "updateById ident i g (updateById ident i f xs) = updateById ident i (\<lambda>x. g (f x)) xs"
  using assms by (induction xs) auto

lemma updateById_same:
  "(\<And>x. findById ident xs i = Some x \<Longrightarrow> f x = x) \<Longrightarrow> updateById ident i f xs = xs"
  by (induction xs) (auto simp: findById_def split: if_splits)

lemma addBookmark_201:
  assumes "addBookmark t d c nid = (r, d1)" and "r_status r = 201"
  obtains n where "findById n_id (Notes d) nid = Some n"
    "Bookmark_findOne d (u_id c) nid = None"
    "d1 = d\<lparr>Bookmarks := Bookmarks d @ [\<lparr>b_id = nextId d, b_user = u_id c, b_note = nid, b_createdAt = t\<rparr>],
            nextId := Suc (nextId d),
            Users := updateById u_id (u_id c) (\<lambda>u. u\<lparr>u_bookmarks := u_bookmarks u @ [nid]\<rparr>) (Users d),
            Notes := updateById n_id nid (\<lambda>x. x\<lparr>n_bookmarkedBy := n_bookmarkedBy x @ [u_id c]\<rparr>) (Notes d)\<rparr>"
proof (cases "findById n_id (Notes d) nid")
  case None
  with assms have False by (auto simp: addBookmark_def fail_def)
  then show ?thesis ..
next
  case (Some n)
  show ?thesis
  proof (cases "Bookmark_findOne d (u_id c) nid")
    case None
    with assms Some have
      "d1 = d\<lparr>Bookmarks := Bookmarks d @ [\<lparr>b_id = nextId d, b_user = u_id c, b_note = nid, b_createdAt = t\<rparr>],
            nextId := Suc (nextId d),
            Users := updateById u_id (u_id c) (\<lambda>u. u\<lparr>u_bookmarks := u_bookmarks u @ [nid]\<rparr>) (Users d),
            Notes := updateById n_id nid (\<lambda>x. x\<lparr>n_bookmarkedBy := n_bookmarkedBy x @ [u_id c]\<rparr>) (Notes d)\<rparr>"
      by (auto simp: addBookmark_def Let_def)
    with that Some None show ?thesis by blast
  next
    case (Some b)
    with assms \<open>findById n_id (Notes d) nid = Some n\<close> have False
      by (auto simp: addBookmark_def fail_def)
    then show ?thesis ..
  qed
qed

lemma deleteNote_200:
  assumes "deleteNote d c i = (r, d')" and "r_status r = 200"
  obtains n where "findById n_id (Notes d) i = Some n"
    "d' = d\<lparr>Cloud := (Cloud d)\<lparr>c_assets := removeAll (resource_type n, n_cloudinaryPublicId n)
                                              (c_assets (Cloud d))\<rparr>,
            Users := updateById u_id (n_uploadedBy n)
                       (\<lambda>u. u\<lparr>u_uploadedNotes := removeAll (n_id n) (u_uploadedNotes u)\<rparr>) (Users d),
            Notes := deleteFirst (\<lambda>x. n_id x = i) (Notes d)\<rparr>"
proof (cases "findById n_id (Notes d) i")
  case None
  with assms have False by (auto simp: deleteNote_def fail_def)
  then show ?thesis ..
next
  case (Some n)
  show ?thesis
  proof (cases "n_uploadedBy n \<noteq> u_id c \<and> u_role c \<noteq> ''admin''")
    case True
    with assms Some have False by (auto simp: deleteNote_def fail_def)
    then show ?thesis ..
  next
    case auth: False
    show ?thesis
    proof (cases "n_cloudinaryPublicId n \<in> set (c_rejects (Cloud d))")
      case True
      with assms Some auth have False
        by (auto simp: deleteNote_def destroy_cases caught_def)
      then show ?thesis ..
    next
      case False
      with assms Some auth have
        "d' = d\<lparr>Cloud := (Cloud d)\<lparr>c_assets := removeAll (resource_type n, n_cloudinaryPublicId n)
                                              (c_assets (Cloud d))\<rparr>,
            Users := updateById u_id (n_uploadedBy n)
                       (\<lambda>u. u\<lparr>u_uploadedNotes := removeAll (n_id n) (u_uploadedNotes u)\<rparr>) (Users d),
            Notes := deleteFirst (\<lambda>x. n_id x = i) (Notes d)\<rparr>"
        by (auto simp: deleteNote_def destroy_cases Let_def)
      with that Some show ?thesis by blast
    qed
  qed
qed

lemma findById_deleteFirst_other:
  "k \<noteq> i \<Longrightarrow> findById ident (deleteFirst (\<lambda>x. ident x = i) xs) k = findById ident xs k"
  by (induction xs) (auto simp: findById_def)

lemma findById_None_iff: "findById ident xs i = None \<longleftrightarrow> i \<notin> ident ` set xs"
  by (auto simp: findById_def find_None_iff)

lemma findById_deleteFirst_same:
  "distinct (map ident xs) \<Longrightarrow> findById ident (deleteFirst (\<lambda>x. ident x = i) xs) i = None"
proof (induction xs)
  case Nil
  then show ?case by (simp add: findById_def)
next
  case (Cons x xs)
  show ?case
  proof (cases "ident x = i")
    case True
    with Cons.prems have "i \<notin> ident ` set xs" by auto
    with True show ?thesis by (simp add: findById_None_iff)
  next
    case False
    with Cons show ?thesis by (simp add: findById_def)
  qed
qed

lemma map_updateById:
  "(\<And>x. g (f x) = g x) \<Longrightarrow> map g (updateById ident i f xs) = map g xs"
  by (induction xs) auto

lemma populate_user_uploadedNotes:
  assumes "Users d' = updateById u_id j (\<lambda>u. u\<lparr>u_uploadedNotes := h (u_uploadedNotes u)\<rparr>) (Users d)"
  shows "populate_user [''name'', ''email'', ''branch''] d' k =
         populate_user [''name'', ''email'', ''branch''] d k"
proof -
  let ?f = "\<lambda>u. u\<lparr>u_uploadedNotes := h (u_uploadedNotes u)\<rparr>"
  have fb: "findById u_id (Users d') k =
          (if k = j then map_option ?f (findById u_id (Users d) j) else findById u_id (Users d) k)"
    unfolding assms by (rule findById_updateById) simp
  have same: "filter (\<lambda>kv. fst kv \<in> set [''_id'', ''name'', ''email'', ''branch''])
                (toObject (select_default (?f u))) =
              filter (\<lambda>kv. fst kv \<in> set [''_id'', ''name'', ''email'', ''branch''])
                (toObject (select_default u))" for u
    by (simp add: toObject_def select_default_def opt_field_def split: option.splits)
  show ?thesis
  proof (cases "k = j")
    case True
    show ?thesis
    proof (cases "findById u_id (Users d) j")
      case None
      with True fb show ?thesis by (simp add: populate_user_def User_findById_def)
    next
      case (Some u)
      with True fb same[of u] show ?thesis by (simp add: populate_user_def User_findById_def)
    qed
  next
    case False
    with fb show ?thesis by (simp add: populate_user_def User_findById_def)
  qed
qed

lemma hide_dangling:
  assumes "\<And>b n p. F b = Some (n, p) \<Longrightarrow> n_id n = key b"
  shows "map the (filter (\<lambda>x. x \<noteq> None) (map (\<lambda>b. if key b = i then None else F b) bs)) =
         filter (\<lambda>(n, p). n_id n \<noteq> i) (map the (filter (\<lambda>x. x \<noteq> None) (map F bs)))"
proof (induction bs)
  case Nil
  then show ?case by simp
next
  case (Cons b bs)
  show ?case
  proof (cases "F b")
    case None
    with Cons show ?thesis by simp
  next
    case (Some np)
    obtain n p where np: "np = (n, p)" by (cases np)
    with Some assms have "n_id n = key b" by blast
    with Some np Cons show ?thesis by simp
  qed
qed

lemma mset_sort_dir [simp]: "mset (sort_dir b k xs) = mset xs"
  by (simp add: sort_dir_def)





lemma trim_no_outer_blank: "no_outer_blank s \<Longrightarrow> trim s = s"
proof -
  assume a: "no_outer_blank s"
  show ?thesis
  proof (cases "s = []")
    case True
    then show ?thesis by (simp add: trim_def)
  next
    case False
    with a have h: "\<not> is_ws (hd s)" and l: "\<not> is_ws (last s)"
      by (simp_all add: no_outer_blank_def)
    from h have 1: "dropWhile is_ws s = s" by (intro dropWhile_fixed) simp
    from False l have "\<not> is_ws (hd (rev s))" by (simp add: hd_rev)
    then have 2: "dropWhile is_ws (rev s) = rev s" by (intro dropWhile_fixed) simp
    show ?thesis by (simp add: trim_def 1 2)
  qed
qed

lemma dropWhile_trim: "dropWhile is_ws (trim s) = trim s"
proof -
  let ?u = "dropWhile is_ws s"
  let ?t = "rev (dropWhile is_ws (rev ?u))"
  have split: "?u = ?t @ rev (takeWhile is_ws (rev ?u))"
    by (metis rev_append rev_rev_ident takeWhile_dropWhile_id)
  have "?t = [] \<or> \<not> is_ws (hd ?t)"
  proof (cases "?t = []")
    case True
    then show ?thesis by simp
  next
    case False
    with split have "hd ?t = hd ?u" by (metis hd_append2)
    moreover have "?u \<noteq> []"
    proof
      assume a: "?u = []"
      have "?t = rev (dropWhile is_ws (rev []))" by (simp only: a)
      with False show False by simp
    qed
    ultimately show ?thesis using hd_dropWhile_not[of is_ws s] by metis
  qed
  then have "dropWhile is_ws ?t = ?t" by (rule dropWhile_fixed)
  then show ?thesis by (simp only: trim_def)
qed

lemma no_outer_blank_trim: "no_outer_blank (trim s)"
proof (cases "trim s = []")
  case True
  then show ?thesis by (simp add: no_outer_blank_def)
next
  case False
  let ?u = "dropWhile is_ws s"
  let ?w = "dropWhile is_ws (rev ?u)"
  have t: "trim s = rev ?w" by (simp add: trim_def)
  with False have w: "?w \<noteq> []" by simp
  with hd_dropWhile_not[of is_ws "rev ?u"] have "\<not> is_ws (hd ?w)" by blast
  with w t have l: "\<not> is_ws (last (trim s))" by (simp add: last_rev)
  from False hd_dropWhile_not[of is_ws "trim s"] have h: "\<not> is_ws (hd (trim s))"
    by (simp only: dropWhile_trim) blast
  from h l show ?thesis by (simp add: no_outer_blank_def)
qed

lemma delete_user_notes_reject:
  assumes "n_cloudinaryPublicId n \<in> set (c_rejects (Cloud d))"
    and "\<forall>m \<in> set pre. n_cloudinaryPublicId m \<notin> set (c_rejects (Cloud d))"
  shows "delete_user_notes (pre @ n # post) d =
           (Some DestroyRejected,
            d\<lparr>Cloud := (Cloud d)\<lparr>c_assets :=
                     fold (\<lambda>m. removeAll (resource_type m, n_cloudinaryPublicId m)) pre
                       (c_assets (Cloud d))\<rparr>,
              Notes := fold (\<lambda>m. deleteFirst (\<lambda>x. n_id x = n_id m)) pre (Notes d)\<rparr>)"
  using assms
proof (induction pre arbitrary: d)
  case Nil
  then show ?case by (simp add: destroy_cases)
next
  case (Cons x pre)
  let ?d2 = "d\<lparr>Cloud := (Cloud d)\<lparr>c_assets := removeAll (resource_type x, n_cloudinaryPublicId x)
                                                  (c_assets (Cloud d))\<rparr>,
                Notes := deleteFirst (\<lambda>y. n_id y = n_id x) (Notes d)\<rparr>"
  from Cons.prems have x: "n_cloudinaryPublicId x \<notin> set (c_rejects (Cloud d))" by simp
  have step: "delete_user_notes ((x # pre) @ n # post) d = delete_user_notes (pre @ n # post) ?d2"
    using x by (simp add: destroy_cases)
  have "delete_user_notes (pre @ n # post) ?d2 =
           (Some DestroyRejected,
            ?d2\<lparr>Cloud := (Cloud ?d2)\<lparr>c_assets :=
                     fold (\<lambda>m. removeAll (resource_type m, n_cloudinaryPublicId m)) pre
                       (c_assets (Cloud ?d2))\<rparr>,
              Notes := fold (\<lambda>m. deleteFirst (\<lambda>x. n_id x = n_id m)) pre (Notes ?d2)\<rparr>)"
    using Cons.prems by (intro Cons.IH) simp_all
  with step show ?case by simp
qed

lemma first_rejected:
  assumes "n \<in> set xs" and "P n"
  shows "\<exists>pre m post. xs = pre @ m # post \<and> P m \<and> (\<forall>y \<in> set pre. \<not> P y)"
proof -
  from assms have "\<exists>x \<in> set xs. P x" by blast
  from split_list_first_prop[OF this] show ?thesis by blast
qed

lemma deleteUser_reject:
  assumes u: "User_findById d k = Some u" and na: "u_role u \<noteq> ''admin''"
    and sp: "filter (\<lambda>x. n_uploadedBy x = k) (Notes d) = pre @ n # post"
    and rj: "n_cloudinaryPublicId n \<in> set (c_rejects (Cloud d))"
    and ok: "\<forall>m \<in> set pre. n_cloudinaryPublicId m \<notin> set (c_rejects (Cloud d))"
  shows "deleteUser d k =
           (caught DestroyRejected,
            d\<lparr>Cloud := (Cloud d)\<lparr>c_assets :=
                     fold (\<lambda>m. removeAll (resource_type m, n_cloudinaryPublicId m)) pre
                       (c_assets (Cloud d))\<rparr>,
              Notes := fold (\<lambda>m. deleteFirst (\<lambda>x. n_id x = n_id m)) pre (Notes d)\<rparr>)"
proof -
  from u have uk: "u_id u = k" by (rule User_findById_id)
  from delete_user_notes_reject[OF rj ok, of post] sp uk u na
  show ?thesis by (simp add: deleteUser_def Let_def)
qed

section \<open>The password of a user never leaves the server\<close>

text \<open>
  Claim C1. The password field is never serialized into a response: \<open>toJSON\<close> of any user
  document, even one loaded with its password, has no \<open>password\<close> key; the default
  projection of a user query drops the field, so \<open>findById\<close> returns documents without
  it; a populated user reference carries only the fields named; and no user object in
  the admin user listing has a \<open>password\<close> key, whatever the filters.
\<close>

theorem C1_password_never_serialized:
  "''password'' \<notin> fst ` set (toJSON u) \<and>
   u_password (select_default u) = None \<and>
   (\<forall>u'. User_findById d i = Some u' \<longrightarrow> u_password u' = None) \<and>
   (\<forall>names obj. populate_user names d i = Some obj \<and> ''password'' \<notin> set names
        \<longrightarrow> ''password'' \<notin> fst ` set obj) \<and>
   (\<forall>r obj. r_data (getAllUsers ext d q) = Some r \<and> obj \<in> set (items r)
        \<longrightarrow> ''password'' \<notin> fst ` set obj)"
proof (intro conjI allI impI)
  show "''password'' \<notin> fst ` set (toJSON u)" by (rule toJSON_no_password)
  show "u_password (select_default u) = None" by (simp add: select_default_def)
  show "u_password u' = None" if "User_findById d i = Some u'" for u'
    using that by (auto simp: User_findById_def select_default_def)
  show "''password'' \<notin> fst ` set obj"
    if "populate_user names d i = Some obj \<and> ''password'' \<notin> set names" for names obj
    using that by (auto simp: populate_user_def)
  show "''password'' \<notin> fst ` set obj"
    if "r_data (getAllUsers ext d q) = Some r \<and> obj \<in> set (items r)" for r obj
    using that getAllUsers_items[of ext d q r obj] toJSON_no_password by auto
qed

theorem C1_password_never_serialized_witness:
  "u_password alice = Some ''$2a$10$hashA'' \<and>
   ''password'' \<notin> fst ` set (toJSON alice) \<and>
   User_findById ex_db 1 = Some (alice\<lparr>u_password := None\<rparr>) \<and>
   u_password (alice\<lparr>u_password := None\<rparr>) = None \<and>
   populate_user [''name'', ''email'', ''branch''] ex_db 1
     = Some [(''_id'', JId 1), (''name'', JStr ''Alice''), (''email'', JStr ''alice@example.com''),
             (''branch'', JStr ''CSE'')] \<and>
   map_option (\<lambda>r. map (map fst) (items r)) (r_data (getAllUsers no_ext ex_db all_users))
     = Some [[''_id'', ''name'', ''email'', ''role'', ''branch'', ''semester'', ''avatar'',
              ''isActive'', ''uploadedNotes'', ''bookmarks'', ''createdAt''],
             [''_id'', ''name'', ''email'', ''role'', ''branch'', ''semester'', ''avatar'',
              ''isActive'', ''uploadedNotes'', ''bookmarks'', ''createdAt''],
             [''_id'', ''name'', ''email'', ''role'', ''avatar'',
              ''isActive'', ''uploadedNotes'', ''bookmarks'', ''createdAt'']]"
proof -
  have a: "u_password alice = Some ''$2a$10$hashA''" by (simp add: alice_def)
  have b: "User_findById ex_db 1 = Some (alice\<lparr>u_password := None\<rparr>)" by code_simp
  have c: "populate_user [''name'', ''email'', ''branch''] ex_db 1
     = Some [(''_id'', JId 1), (''name'', JStr ''Alice''), (''email'', JStr ''alice@example.com''),
             (''branch'', JStr ''CSE'')]" by code_simp
  have d: "map_option (\<lambda>r. map (map fst) (items r)) (r_data (getAllUsers no_ext ex_db all_users))
     = Some [[''_id'', ''name'', ''email'', ''role'', ''branch'', ''semester'', ''avatar'',
              ''isActive'', ''uploadedNotes'', ''bookmarks'', ''createdAt''],
             [''_id'', ''name'', ''email'', ''role'', ''branch'', ''semester'', ''avatar'',
              ''isActive'', ''uploadedNotes'', ''bookmarks'', ''createdAt''],
             [''_id'', ''name'', ''email'', ''role'', ''avatar'',
              ''isActive'', ''uploadedNotes'', ''bookmarks'', ''createdAt'']]" by code_simp
  note inst = C1_password_never_serialized [of alice ex_db 1 no_ext all_users]
  from inst have e: "''password'' \<notin> fst ` set (toJSON alice)" by blast
  from inst b have f: "u_password (alice\<lparr>u_password := None\<rparr>) = None" by blast
  from a b c d e f show ?thesis by blast
qed

section \<open>The counts of the admin dashboard\<close>

text \<open>
  Claim C10. The dashboard reports as \<open>totalUsers\<close> the number of users whose role is
  \<open>student\<close>, so that admin accounts are left out of the count, and as \<open>totalNotes\<close> the
  number of all notes, approved or not.
\<close>

theorem C10_dashboard_counts:
  "r_status (getDashboardStats d) = 200 \<and>
   (\<exists>s. r_data (getDashboardStats d) = Some s \<and>
      totalUsers (st_overview s) = length (filter (\<lambda>u. u_role u = STUDENT) (Users d)) \<and>
      totalUsers (st_overview s) + length (filter (\<lambda>u. u_role u = ADMIN) (Users d))
        \<le> length (Users d) \<and>
      totalNotes (st_overview s) = length (Notes d) \<and>
      totalNotes (st_overview s) =
        length (filter (\<lambda>n. n_status n = APPROVED) (Notes d)) +
        length (filter (\<lambda>n. n_status n \<noteq> APPROVED) (Notes d)))"
proof -
  have "length (filter (\<lambda>u. u_role u = STUDENT) (Users d)) +
        length (filter (\<lambda>u. u_role u = ADMIN) (Users d)) \<le> length (Users d)"
    by (rule length_filter_disjoint) (simp add: STUDENT_def ADMIN_def)
  moreover have "length (Notes d) = length (filter (\<lambda>n. n_status n = APPROVED) (Notes d)) +
        length (filter (\<lambda>n. n_status n \<noteq> APPROVED) (Notes d))"
    using sum_length_filter_compl[of "\<lambda>n. n_status n = APPROVED" "Notes d"] by simp
  ultimately show ?thesis
    by (simp add: getDashboardStats_def Let_def ok_def STUDENT_def)
qed

theorem C10_dashboard_counts_witness:
  "length (Users ex_db) = 3 \<and> length (Notes ex_db) = 2 \<and>
   map_option (\<lambda>s. (totalUsers (st_overview s), totalNotes (st_overview s)))
     (r_data (getDashboardStats ex_db)) = Some (2, 2)"
  using C10_dashboard_counts [of ex_db]
  by (auto simp: ex_db_def alice_def bob_def root_def note10_def note11_def
        STUDENT_def ADMIN_def APPROVED_def)

section \<open>The public job listing\<close>

text \<open>
  Claim C2. Whatever the filters, every job of a public listing has an application
  deadline that is not before the time of the request, and the status asked for; when the
  caller gives no status the status is \<open>active\<close>. So a job whose deadline has passed
  never appears, and the total of the pagination block counts only such jobs.
\<close>

theorem C2_job_listing_restricts:
  assumes "r_data (getJobs ext now d q) = Some r" and "(j, p) \<in> set (items r)"
  shows "j \<in> set (Jobs d) \<and>
         now \<le> j_applicationDeadline j \<and>
         (jq_status q = None \<longrightarrow> j_status j = ''active'') \<and>
         (\<forall>s. jq_status q = Some s \<longrightarrow> j_status j = s) \<and>
         pg_total (pagination r)
           \<le> length (filter (\<lambda>x. now \<le> j_applicationDeadline x \<and>
                                  j_status x = (case jq_status q of None \<Rightarrow> ''active'' | Some s \<Rightarrow> s))
                 (Jobs d))"
proof -
  let ?st = "case jq_status q of None \<Rightarrow> ''active'' | Some s \<Rightarrow> s"
  from assms(1) obtain loc srch js where
    sl: "page_slice (case jq_page q of None \<Rightarrow> 1 | Some p \<Rightarrow> p) (case jq_limit q of None \<Rightarrow> 12 | Some l \<Rightarrow> l)
       (sort_jobs (case jq_sortBy q of None \<Rightarrow> ''createdAt'' | Some s \<Rightarrow> s)
          ((case jq_order q of None \<Rightarrow> ''desc'' | Some s \<Rightarrow> s) = ''desc'')
          (filter (job_query_holds now ?st (jq_type q) loc (jq_locationType q) srch) (Jobs d))) = Inr js"
    and it: "items r = map (\<lambda>j. (j, populate_user [''name'', ''email''] d (j_postedBy j))) js"
    and tot: "pg_total (pagination r) =
       length (filter (job_query_holds now ?st (jq_type q) loc (jq_locationType q) srch) (Jobs d))"
    by (rule getJobs_Some)
  let ?P = "job_query_holds now ?st (jq_type q) loc (jq_locationType q) srch"
  have imp: "now \<le> j_applicationDeadline x \<and> j_status x = ?st" if "?P x" for x
    using that by (simp add: job_query_holds_def)
  from assms(2) it have "j \<in> set js" by auto
  with page_slice_subset[OF sl] have "j \<in> set (filter ?P (Jobs d))"
    by (auto simp only: set_sort_jobs)
  then have m: "j \<in> set (Jobs d)" and pj: "?P j" by simp_all
  from imp[OF pj] have dl: "now \<le> j_applicationDeadline j" and st: "j_status j = ?st"
    by blast+
  have le: "length (filter ?P (Jobs d))
        \<le> length (filter (\<lambda>x. now \<le> j_applicationDeadline x \<and> j_status x = ?st) (Jobs d))"
    by (rule length_filter_mono) (rule imp)
  from st have s1: "jq_status q = None \<longrightarrow> j_status j = ''active''" by simp
  from st have s2: "\<forall>s. jq_status q = Some s \<longrightarrow> j_status j = s" by simp
  from m dl s1 s2 le tot show ?thesis by (simp only:) 
qed

theorem C2_job_listing_restricts_witness:
  "r_data (getJobs no_ext 1000 ex_db jobs_default)
     = Some \<lparr>items = [(job20, Some root_profile)],
             pagination = \<lparr>pg_total = 1, pg_page = 1, pg_pages = Some 1, pg_limit = Some 12\<rparr>\<rparr> \<and>
   job21 \<in> set (Jobs ex_db) \<and> j_applicationDeadline job21 < 1000 \<and>
   1000 \<le> j_applicationDeadline job20 \<and> j_status job20 = ''active''"
proof -
  have a: "r_data (getJobs no_ext 1000 ex_db jobs_default)
     = Some \<lparr>items = [(job20, Some root_profile)],
             pagination = \<lparr>pg_total = 1, pg_page = 1, pg_pages = Some 1, pg_limit = Some 12\<rparr>\<rparr>"
    by code_simp
  have b: "(job20, Some root_profile)
        \<in> set (items \<lparr>items = [(job20, Some root_profile)],
             pagination = \<lparr>pg_total = 1, pg_page = 1, pg_pages = Some 1, pg_limit = Some 12\<rparr>\<rparr>)"
    by simp
  have c: "jq_status jobs_default = None" by (simp add: jobs_default_def)
  have d: "job21 \<in> set (Jobs ex_db)" "j_applicationDeadline job21 < 1000"
    by (simp_all add: ex_db_def job21_def)
  from C2_job_listing_restricts [OF a b] c d a show ?thesis by blast
qed

section \<open>The public note listing\<close>




section \<open>Applying for a job\<close>

text \<open>
  Claim C3, as the code has it. An application for a job that does not exist fails with
  404; for a job whose deadline has passed it fails with 400, whatever applications are
  stored; for a job the caller has already applied to it fails with 400; none of these
  changes the database. Otherwise a cover letter of more than 1000 characters is rejected
  by the schema (500, nothing changed), and any other request stores exactly one new
  application, appends the caller to the job's applicants and adds one to its views.
\<close>

theorem C3_apply_for_job:
  "(findById j_id (Jobs d) jid = None \<longrightarrow>
      applyForJob now d c jid cl = (fail 404 ''Job not found'', d)) \<and>
   (\<forall>j. findById j_id (Jobs d) jid = Some j \<and> j_applicationDeadline j < now \<longrightarrow>
      applyForJob now d c jid cl = (fail 400 ''Application deadline has passed'', d)) \<and>
   (\<forall>j a. findById j_id (Jobs d) jid = Some j \<and> now \<le> j_applicationDeadline j \<and>
      a \<in> set (Applications d) \<and> a_job a = jid \<and> a_applicant a = u_id c \<longrightarrow>
      applyForJob now d c jid cl = (fail 400 ''You have already applied for this job'', d)) \<and>
   (\<forall>j s. findById j_id (Jobs d) jid = Some j \<and> now \<le> j_applicationDeadline j \<and>
      (\<forall>a \<in> set (Applications d). \<not> (a_job a = jid \<and> a_applicant a = u_id c)) \<and>
      cl = Some s \<and> 1000 < length s \<longrightarrow>
      applyForJob now d c jid cl = (caught ValidationError, d)) \<and>
   (\<forall>j. findById j_id (Jobs d) jid = Some j \<and> now \<le> j_applicationDeadline j \<and>
      (\<forall>a \<in> set (Applications d). \<not> (a_job a = jid \<and> a_applicant a = u_id c)) \<and>
      (\<forall>s. cl = Some s \<longrightarrow> length s \<le> 1000) \<longrightarrow>
      (\<exists>a d'. applyForJob now d c jid cl =
                 (ok 201 (Some (Text ''Application submitted successfully'')) (Some a), d') \<and>
         a_job a = jid \<and> a_applicant a = u_id c \<and> a_coverLetter a = cl \<and>
         a_status a = ''applied'' \<and>
         Applications d' = Applications d @ [a] \<and>
         findById j_id (Jobs d') jid =
           Some (j\<lparr>j_applicants := j_applicants j @ [u_id c], j_views := j_views j + 1\<rparr>) \<and>
         (\<forall>k. k \<noteq> jid \<longrightarrow> findById j_id (Jobs d') k = findById j_id (Jobs d) k) \<and>
         length (Jobs d') = length (Jobs d) \<and>
         Users d' = Users d \<and> Notes d' = Notes d \<and> Bookmarks d' = Bookmarks d \<and>
         Cloud d' = Cloud d))"
proof (intro conjI allI impI)
  show "applyForJob now d c jid cl = (fail 404 ''Job not found'', d)"
    if "findById j_id (Jobs d) jid = None"
    using that by (simp add: applyForJob_def)
  show "applyForJob now d c jid cl = (fail 400 ''Application deadline has passed'', d)"
    if "findById j_id (Jobs d) jid = Some j \<and> j_applicationDeadline j < now" for j
    using that by (simp add: applyForJob_def)
  show "applyForJob now d c jid cl = (fail 400 ''You have already applied for this job'', d)"
    if h: "findById j_id (Jobs d) jid = Some j \<and> now \<le> j_applicationDeadline j \<and>
      a \<in> set (Applications d) \<and> a_job a = jid \<and> a_applicant a = u_id c" for j a
  proof -
    from h have "find (\<lambda>a. a_job a = jid \<and> a_applicant a = u_id c) (Applications d) \<noteq> None"
      by (auto simp: find_None_iff)
    then obtain e where "find (\<lambda>a. a_job a = jid \<and> a_applicant a = u_id c) (Applications d) = Some e"
      by auto
    with h show ?thesis by (simp add: applyForJob_def)
  qed
  show "applyForJob now d c jid cl = (caught ValidationError, d)"
    if h: "findById j_id (Jobs d) jid = Some j \<and> now \<le> j_applicationDeadline j \<and>
      (\<forall>a \<in> set (Applications d). \<not> (a_job a = jid \<and> a_applicant a = u_id c)) \<and>
      cl = Some s \<and> 1000 < length s" for j s
  proof -
    from h have "find (\<lambda>a. a_job a = jid \<and> a_applicant a = u_id c) (Applications d) = None"
      by (auto simp: find_None_iff)
    with h show ?thesis by (simp add: applyForJob_def Application_create_def)
  qed
  show "\<exists>a d'. applyForJob now d c jid cl =
                 (ok 201 (Some (Text ''Application submitted successfully'')) (Some a), d') \<and>
         a_job a = jid \<and> a_applicant a = u_id c \<and> a_coverLetter a = cl \<and>
         a_status a = ''applied'' \<and>
         Applications d' = Applications d @ [a] \<and>
         findById j_id (Jobs d') jid =
           Some (j\<lparr>j_applicants := j_applicants j @ [u_id c], j_views := j_views j + 1\<rparr>) \<and>
         (\<forall>k. k \<noteq> jid \<longrightarrow> findById j_id (Jobs d') k = findById j_id (Jobs d) k) \<and>
         length (Jobs d') = length (Jobs d) \<and>
         Users d' = Users d \<and> Notes d' = Notes d \<and> Bookmarks d' = Bookmarks d \<and>
         Cloud d' = Cloud d"
    if h: "findById j_id (Jobs d) jid = Some j \<and> now \<le> j_applicationDeadline j \<and>
      (\<forall>a \<in> set (Applications d). \<not> (a_job a = jid \<and> a_applicant a = u_id c)) \<and>
      (\<forall>s. cl = Some s \<longrightarrow> length s \<le> 1000)" for j
  proof -
    from h have f: "find (\<lambda>a. a_job a = jid \<and> a_applicant a = u_id c) (Applications d) = None"
      by (auto simp: find_None_iff)
    from h have v: "(case cl of None \<Rightarrow> True | Some s \<Rightarrow> length s \<le> 1000)"
      by (auto split: option.splits)
    let ?a = "\<lparr>a_id = nextId d, a_job = jid, a_applicant = u_id c, a_status = ''applied'',
                 a_coverLetter = cl, a_appliedAt = now, a_createdAt = now\<rparr>"
    let ?g = "\<lambda>x. x\<lparr>j_applicants := j_applicants x @ [u_id c], j_views := j_views x + 1\<rparr>"
    let ?d' = "d\<lparr>Applications := Applications d @ [?a], nextId := Suc (nextId d),
                 Jobs := updateById j_id jid ?g (Jobs d)\<rparr>"
    have run: "applyForJob now d c jid cl =
                 (ok 201 (Some (Text ''Application submitted successfully'')) (Some ?a), ?d')"
      using h f v by (simp add: applyForJob_def Application_create_def Let_def)
    have fb: "findById j_id (updateById j_id jid ?g (Jobs d)) k =
           (if k = jid then map_option ?g (findById j_id (Jobs d) jid) else findById j_id (Jobs d) k)" for k
      by (rule findById_updateById) simp
    have len: "length (updateById j_id jid ?g (Jobs d)) = length (Jobs d)"
      by simp
    show ?thesis
      apply (rule exI[of _ ?a], rule exI[of _ ?d'])
      using run h fb len by simp
  qed
qed

text \<open>
  A request that passes the three checks and still does not create an application: Bob
  applies in time, for the first time, to an existing job, with a cover letter of 1001
  characters.
\<close>

theorem C3_long_cover_letter_counterexample:
  "findById j_id (Jobs ex_db) 20 = Some job20 \<and> \<not> j_applicationDeadline job20 < 1000 \<and>
   Applications ex_db = [] \<and>
   applyForJob 1000 ex_db bob 20 (Some (replicate 1001 (CHR ''a''))) = (caught ValidationError, ex_db)"
  by code_simp

theorem C3_apply_for_job_witness:
  "applyForJob 1000 ex_db bob 99 (Some ''hi'') = (fail 404 ''Job not found'', ex_db) \<and>
   applyForJob 1000 ex_db bob 21 (Some ''hi'') = (fail 400 ''Application deadline has passed'', ex_db) \<and>
   applyForJob 1000 ex_db bob 20 (Some ''hi'') =
     (ok 201 (Some (Text ''Application submitted successfully'')) (Some app31),
      ex_db\<lparr>Applications := [app31], nextId := 32,
             Jobs := [job20\<lparr>j_applicants := [2], j_views := 1\<rparr>, job21]\<rparr>) \<and>
   applyForJob 2000 (snd (applyForJob 1000 ex_db bob 20 (Some ''hi''))) bob 20 None =
     (fail 400 ''You have already applied for this job'',
      snd (applyForJob 1000 ex_db bob 20 (Some ''hi''))) \<and>
   Applications (snd (applyForJob 1000 ex_db bob 20 (Some ''hi''))) = Applications ex_db @ [app31]"
proof -
  have a: "findById j_id (Jobs ex_db) 99 = None" by code_simp
  have b: "findById j_id (Jobs ex_db) 21 = Some job21 \<and> j_applicationDeadline job21 < 1000"
    by code_simp
  have c: "applyForJob 1000 ex_db bob 20 (Some ''hi'') =
     (ok 201 (Some (Text ''Application submitted successfully'')) (Some app31),
      ex_db\<lparr>Applications := [app31], nextId := 32,
             Jobs := [job20\<lparr>j_applicants := [2], j_views := 1\<rparr>, job21]\<rparr>)"
    by code_simp
  let ?d1 = "snd (applyForJob 1000 ex_db bob 20 (Some ''hi''))"
  have e: "findById j_id (Jobs ?d1) 20 = Some (job20\<lparr>j_applicants := [2], j_views := 1\<rparr>) \<and>
           2000 \<le> j_applicationDeadline (job20\<lparr>j_applicants := [2], j_views := 1\<rparr>) \<and>
           app31 \<in> set (Applications ?d1) \<and> a_job app31 = 20 \<and> a_applicant app31 = u_id bob"
    by code_simp
  from C3_apply_for_job [of ex_db 99 1000 bob "Some ''hi''"] a
  have 1: "applyForJob 1000 ex_db bob 99 (Some ''hi'') = (fail 404 ''Job not found'', ex_db)"
    by blast
  from C3_apply_for_job [of ex_db 21 1000 bob "Some ''hi''"] b
  have 2: "applyForJob 1000 ex_db bob 21 (Some ''hi'') = (fail 400 ''Application deadline has passed'', ex_db)"
    by blast
  from C3_apply_for_job [of ?d1 20 2000 bob None] e
  have 3: "applyForJob 2000 ?d1 bob 20 None = (fail 400 ''You have already applied for this job'', ?d1)"
    by blast
  have f: "findById j_id (Jobs ex_db) 20 = Some job20 \<and> 1000 \<le> j_applicationDeadline job20 \<and>
           (\<forall>a \<in> set (Applications ex_db). \<not> (a_job a = 20 \<and> a_applicant a = u_id bob)) \<and>
           (\<forall>s. Some ''hi'' = Some s \<longrightarrow> length s \<le> 1000)"
    by (simp add: ex_db_def job20_def findById_def)
  note s5 = C3_apply_for_job [of ex_db 20 1000 bob "Some ''hi''", THEN conjunct2, THEN conjunct2,
      THEN conjunct2, THEN conjunct2, rule_format, OF f]
  then obtain a d' where
    ad: "applyForJob 1000 ex_db bob 20 (Some ''hi'') =
       (ok 201 (Some (Text ''Application submitted successfully'')) (Some a), d')"
    and ap: "Applications d' = Applications ex_db @ [a]"
    by (elim exE conjE)
  from ad have "r_data (fst (applyForJob 1000 ex_db bob 20 (Some ''hi''))) = Some a"
    and d': "?d1 = d'"
    by (simp_all add: ok_def)
  with c have "a = app31" by (simp add: ok_def)
  with ap d' have 4: "Applications ?d1 = Applications ex_db @ [app31]"
    by simp
  from 1 2 3 4 c show ?thesis by blast
qed

section \<open>Updating a note\<close>

text \<open>
  Claim C4, as the code has it. An update of an existing note by its uploader or an admin
  assigns the fields of the patch and then saves the note: when the note so assigned
  passes the validators of the schema the update answers 200 and stores it, otherwise it
  answers 500 and stores nothing. The assignment is a partial update: a
  field given with a non-empty value (for the semester, a non-zero number) is overwritten
  with that value, trimmed as the schema stores text, and the tags with the trimmed
  pieces of the comma-separated list. A field that is absent, or given as the empty
  string or as zero, is assigned what the note held: the semester and the tags keep their
  value, and a text field keeps its value as the schema's trim leaves it, which is the
  value itself when it has no blank at either end. After the update no text field of the
  note has a blank at either end. The fields that are not part of the patch, the other
  notes and the other collections are unchanged.
\<close>

theorem C4_partial_update:
  assumes "findById n_id (Notes d) i = Some n"
    and "n_uploadedBy n = u_id c \<or> u_role c = ''admin''"
  shows "\<exists>n'.
           (\<forall>s. p_title p = Some s \<and> s \<noteq> [] \<longrightarrow> n_title n' = trim s) \<and>
           (p_title p = None \<or> p_title p = Some [] \<longrightarrow> n_title n' = trim (n_title n)) \<and>
           ((p_title p = None \<or> p_title p = Some []) \<and> no_outer_blank (n_title n) \<longrightarrow>
              n_title n' = n_title n) \<and>
           no_outer_blank (n_title n') \<and>
           (\<forall>s. p_description p = Some s \<and> s \<noteq> [] \<longrightarrow> n_description n' = Some (trim s)) \<and>
           (p_description p = None \<or> p_description p = Some [] \<longrightarrow>
              n_description n' = map_option trim (n_description n)) \<and>
           ((p_description p = None \<or> p_description p = Some []) \<and>
            (\<forall>s. n_description n = Some s \<longrightarrow> no_outer_blank s) \<longrightarrow>
              n_description n' = n_description n) \<and>
           (\<forall>s. n_description n' = Some s \<longrightarrow> no_outer_blank s) \<and>
           (\<forall>s. p_subject p = Some s \<and> s \<noteq> [] \<longrightarrow> n_subject n' = trim s) \<and>
           (p_subject p = None \<or> p_subject p = Some [] \<longrightarrow> n_subject n' = trim (n_subject n)) \<and>
           ((p_subject p = None \<or> p_subject p = Some []) \<and> no_outer_blank (n_subject n) \<longrightarrow>
              n_subject n' = n_subject n) \<and>
           no_outer_blank (n_subject n') \<and>
           (\<forall>k. p_semester p = Some k \<and> k \<noteq> 0 \<longrightarrow> n_semester n' = k) \<and>
           (p_semester p = None \<or> p_semester p = Some 0 \<longrightarrow> n_semester n' = n_semester n) \<and>
           (\<forall>s. p_branch p = Some s \<and> s \<noteq> [] \<longrightarrow> n_branch n' = trim s) \<and>
           (p_branch p = None \<or> p_branch p = Some [] \<longrightarrow> n_branch n' = trim (n_branch n)) \<and>
           ((p_branch p = None \<or> p_branch p = Some []) \<and> no_outer_blank (n_branch n) \<longrightarrow>
              n_branch n' = n_branch n) \<and>
           no_outer_blank (n_branch n') \<and>
           (\<forall>t. p_tags p = Some t \<and> t \<noteq> [] \<longrightarrow> n_tags n' = map trim (split_on CHR '','' t)) \<and>
           (p_tags p = None \<or> p_tags p = Some [] \<longrightarrow> n_tags n' = n_tags n) \<and>
           n_id n' = n_id n \<and> n_fileUrl n' = n_fileUrl n \<and> n_fileType n' = n_fileType n \<and>
           n_fileSize n' = n_fileSize n \<and> n_cloudinaryPublicId n' = n_cloudinaryPublicId n \<and>
           n_uploadedBy n' = n_uploadedBy n \<and> n_status n' = n_status n \<and>
           n_views n' = n_views n \<and> n_downloads n' = n_downloads n \<and>
           n_bookmarkedBy n' = n_bookmarkedBy n \<and> n_rating n' = n_rating n \<and>
           n_ratingCount n' = n_ratingCount n \<and> n_createdAt n' = n_createdAt n \<and>
           (note_valid n' \<longrightarrow>
              (\<exists>d'. updateNote d c i p =
                      (ok 200 (Some (Text ''Note updated successfully'')) (Some n'), d') \<and>
                    findById n_id (Notes d') i = Some n' \<and>
                    (\<forall>k. k \<noteq> i \<longrightarrow> findById n_id (Notes d') k = findById n_id (Notes d) k) \<and>
                    Users d' = Users d \<and> Jobs d' = Jobs d \<and> Applications d' = Applications d \<and>
                    Bookmarks d' = Bookmarks d \<and> Cloud d' = Cloud d)) \<and>
           (\<not> note_valid n' \<longrightarrow> updateNote d c i p = (caught ValidationError, d))"
proof -
  note n = assms(1)
  let ?n' = "assign_fields p n"
  let ?d' = "d\<lparr>Notes := updateById n_id i (\<lambda>_. ?n') (Notes d)\<rparr>"
  from n have "n_id n = i" by (rule findById_ident)
  then have idn: "n_id ?n' = i" by simp
  note fb = findById_replace[OF n idn]
  have run: "updateNote d c i p =
               (if note_valid ?n'
                then (ok 200 (Some (Text ''Note updated successfully'')) (Some ?n'), ?d')
                else (caught ValidationError, d))"
    using assms(2)
  proof
    assume "n_uploadedBy n = u_id c"
    with n show ?thesis by (simp add: updateNote_def Let_def)
  next
    assume "u_role c = ''admin''"
    with n show ?thesis by (simp add: updateNote_def Let_def)
  qed
  have good: "note_valid ?n' \<longrightarrow>
              (\<exists>d'. updateNote d c i p =
                      (ok 200 (Some (Text ''Note updated successfully'')) (Some ?n'), d') \<and>
                    findById n_id (Notes d') i = Some ?n' \<and>
                    (\<forall>k. k \<noteq> i \<longrightarrow> findById n_id (Notes d') k = findById n_id (Notes d) k) \<and>
                    Users d' = Users d \<and> Jobs d' = Jobs d \<and> Applications d' = Applications d \<and>
                    Bookmarks d' = Bookmarks d \<and> Cloud d' = Cloud d)"
  proof
    assume v: "note_valid ?n'"
    show "\<exists>d'. updateNote d c i p =
                      (ok 200 (Some (Text ''Note updated successfully'')) (Some ?n'), d') \<and>
                    findById n_id (Notes d') i = Some ?n' \<and>
                    (\<forall>k. k \<noteq> i \<longrightarrow> findById n_id (Notes d') k = findById n_id (Notes d) k) \<and>
                    Users d' = Users d \<and> Jobs d' = Jobs d \<and> Applications d' = Applications d \<and>
                    Bookmarks d' = Bookmarks d \<and> Cloud d' = Cloud d"
      by (rule exI[of _ ?d']) (simp add: run v fb)
  qed
  have bad: "\<not> note_valid ?n' \<longrightarrow> updateNote d c i p = (caught ValidationError, d)"
    by (simp add: run)
  have t: "(\<forall>s. p_title p = Some s \<and> s \<noteq> [] \<longrightarrow> n_title ?n' = trim s) \<and>
           (p_title p = None \<or> p_title p = Some [] \<longrightarrow> n_title ?n' = trim (n_title n))"
    by (auto simp: assign_title or_str_def truthy_def)
  have de: "(\<forall>s. p_description p = Some s \<and> s \<noteq> [] \<longrightarrow> n_description ?n' = Some (trim s)) \<and>
           (p_description p = None \<or> p_description p = Some [] \<longrightarrow>
              n_description ?n' = map_option trim (n_description n))"
    by (auto simp: assign_description or_opt_def truthy_def)
  have su: "(\<forall>s. p_subject p = Some s \<and> s \<noteq> [] \<longrightarrow> n_subject ?n' = trim s) \<and>
           (p_subject p = None \<or> p_subject p = Some [] \<longrightarrow> n_subject ?n' = trim (n_subject n))"
    by (auto simp: assign_subject or_str_def truthy_def)
  have se: "(\<forall>k. p_semester p = Some k \<and> k \<noteq> 0 \<longrightarrow> n_semester ?n' = k) \<and>
           (p_semester p = None \<or> p_semester p = Some 0 \<longrightarrow> n_semester ?n' = n_semester n)"
    by (auto simp: assign_semester or_num_def)
  have br: "(\<forall>s. p_branch p = Some s \<and> s \<noteq> [] \<longrightarrow> n_branch ?n' = trim s) \<and>
           (p_branch p = None \<or> p_branch p = Some [] \<longrightarrow> n_branch ?n' = trim (n_branch n))"
    by (auto simp: assign_branch or_str_def truthy_def)
  have ta: "(\<forall>t. p_tags p = Some t \<and> t \<noteq> [] \<longrightarrow> n_tags ?n' = map trim (split_on CHR '','' t)) \<and>
           (p_tags p = None \<or> p_tags p = Some [] \<longrightarrow> n_tags ?n' = n_tags n)"
    by (auto simp: assign_tags)
  have t2: "((p_title p = None \<or> p_title p = Some []) \<and> no_outer_blank (n_title n) \<longrightarrow>
              n_title ?n' = n_title n) \<and> no_outer_blank (n_title ?n')"
    using t by (auto simp: trim_no_outer_blank assign_title no_outer_blank_trim)
  have su2: "((p_subject p = None \<or> p_subject p = Some []) \<and> no_outer_blank (n_subject n) \<longrightarrow>
              n_subject ?n' = n_subject n) \<and> no_outer_blank (n_subject ?n')"
    using su by (auto simp: trim_no_outer_blank assign_subject no_outer_blank_trim)
  have br2: "((p_branch p = None \<or> p_branch p = Some []) \<and> no_outer_blank (n_branch n) \<longrightarrow>
              n_branch ?n' = n_branch n) \<and> no_outer_blank (n_branch ?n')"
    using br by (auto simp: trim_no_outer_blank assign_branch no_outer_blank_trim)
  have de2: "((p_description p = None \<or> p_description p = Some []) \<and>
            (\<forall>s. n_description n = Some s \<longrightarrow> no_outer_blank s) \<longrightarrow>
              n_description ?n' = n_description n) \<and>
           (\<forall>s. n_description ?n' = Some s \<longrightarrow> no_outer_blank s)"
  proof (intro conjI impI allI)
    assume h: "(p_description p = None \<or> p_description p = Some []) \<and>
            (\<forall>s. n_description n = Some s \<longrightarrow> no_outer_blank s)"
    with de have "n_description ?n' = map_option trim (n_description n)" by blast
    with h show "n_description ?n' = n_description n"
      by (cases "n_description n") (simp_all add: trim_no_outer_blank)
  next
    fix s assume "n_description ?n' = Some s"
    then obtain s0 where "s = trim s0"
      by (auto simp: assign_description)
    then show "no_outer_blank s" by (simp add: no_outer_blank_trim)
  qed
  have fr: "n_id ?n' = n_id n" by simp
  note parts = fr good bad
    t[THEN conjunct1] t[THEN conjunct2] t2[THEN conjunct1] t2[THEN conjunct2]
    de[THEN conjunct1] de[THEN conjunct2] de2[THEN conjunct1] de2[THEN conjunct2]
    su[THEN conjunct1] su[THEN conjunct2] su2[THEN conjunct1] su2[THEN conjunct2]
    se[THEN conjunct1] se[THEN conjunct2]
    br[THEN conjunct1] br[THEN conjunct2] br2[THEN conjunct1] br2[THEN conjunct2]
    ta[THEN conjunct1] ta[THEN conjunct2]
  show ?thesis
    by (rule exI[of _ ?n'], intro conjI)
       (fact parts | simp only: assign_frame[of p n])+
qed

text \<open>
  A description given as the empty string does not overwrite the stored description: the
  update succeeds and the note still reads \<open>old\<close>.
\<close>

theorem C4_empty_description_counterexample:
  "p_description patch_empty_description = Some [] \<and>
   updateNote ex_db alice 10 patch_empty_description =
     (ok 200 (Some (Text ''Note updated successfully'')) (Some note10), ex_db) \<and>
   n_description note10 = Some ''old''"
  by code_simp

text \<open>
  A kept text field passes through the schema's trim: an update that gives no field at
  all stores a title that was held with a blank on either side without the blanks.
\<close>

lemma updateNote_trims_kept_title:
  "map_option n_title (findById n_id (Notes ex_db_padded) 10) = Some '' Joins '' \<and>
   r_status (fst (updateNote ex_db_padded alice 10 patch_nothing)) = 200 \<and>
   map_option n_title (findById n_id (Notes (snd (updateNote ex_db_padded alice 10 patch_nothing))) 10)
     = Some ''Joins''"
  by code_simp

theorem C4_partial_update_witness:
  "findById n_id (Notes ex_db) 10 = Some note10 \<and>
   updateNote ex_db alice 10 patch_title_tags =
     (ok 200 (Some (Text ''Note updated successfully''))
        (Some (note10\<lparr>n_title := ''Inner joins'', n_tags := [''sql'', ''joins'']\<rparr>)),
      ex_db\<lparr>Notes := [note10\<lparr>n_title := ''Inner joins'', n_tags := [''sql'', ''joins'']\<rparr>, note11]\<rparr>) \<and>
   no_outer_blank (n_subject note10) \<and>
   (\<exists>n'. r_data (fst (updateNote ex_db alice 10 patch_title_tags)) = Some n' \<and>
         n_title n' = trim ''  Inner joins '' \<and> n_subject n' = n_subject note10 \<and>
         n_semester n' = n_semester note10)"
proof -
  have n10: "findById n_id (Notes ex_db) 10 = Some note10" by code_simp
  have au: "n_uploadedBy note10 = u_id alice \<or> u_role alice = ''admin''" by code_simp
  have ev: "updateNote ex_db alice 10 patch_title_tags =
     (ok 200 (Some (Text ''Note updated successfully''))
        (Some (note10\<lparr>n_title := ''Inner joins'', n_tags := [''sql'', ''joins'']\<rparr>)),
      ex_db\<lparr>Notes := [note10\<lparr>n_title := ''Inner joins'', n_tags := [''sql'', ''joins'']\<rparr>, note11]\<rparr>)"
    by code_simp
  have nb: "no_outer_blank (n_subject note10)" by code_simp
  have pt: "p_title patch_title_tags = Some ''  Inner joins '' \<and> ''  Inner joins '' \<noteq> []"
    and ps: "p_subject patch_title_tags = None \<or> p_subject patch_title_tags = Some []"
    and pm: "p_semester patch_title_tags = None \<or> p_semester patch_title_tags = Some 0"
    by (simp_all add: patch_title_tags_def)
  from C4_partial_update [OF n10 au, of patch_title_tags] obtain n' where
    o: "\<forall>s. p_title patch_title_tags = Some s \<and> s \<noteq> [] \<longrightarrow> n_title n' = trim s"
       "(p_subject patch_title_tags = None \<or> p_subject patch_title_tags = Some []) \<and>
          no_outer_blank (n_subject note10) \<longrightarrow> n_subject n' = n_subject note10"
       "p_semester patch_title_tags = None \<or> p_semester patch_title_tags = Some 0 \<longrightarrow>
          n_semester n' = n_semester note10"
       "note_valid n' \<longrightarrow>
              (\<exists>d'. updateNote ex_db alice 10 patch_title_tags =
                      (ok 200 (Some (Text ''Note updated successfully'')) (Some n'), d') \<and>
                    findById n_id (Notes d') 10 = Some n' \<and>
                    (\<forall>k. k \<noteq> 10 \<longrightarrow> findById n_id (Notes d') k = findById n_id (Notes ex_db) k) \<and>
                    Users d' = Users ex_db \<and> Jobs d' = Jobs ex_db \<and>
                    Applications d' = Applications ex_db \<and>
                    Bookmarks d' = Bookmarks ex_db \<and> Cloud d' = Cloud ex_db)"
       "\<not> note_valid n' \<longrightarrow>
          updateNote ex_db alice 10 patch_title_tags = (caught ValidationError, ex_db)"
    by (elim exE conjE) (rule that; assumption)
  have v: "note_valid n'"
  proof (rule ccontr)
    assume "\<not> note_valid n'"
    with o(5) have "updateNote ex_db alice 10 patch_title_tags = (caught ValidationError, ex_db)"
      by blast
    with ev show False by (simp add: ok_def caught_def)
  qed
  with o(4) obtain d' where
    "updateNote ex_db alice 10 patch_title_tags =
       (ok 200 (Some (Text ''Note updated successfully'')) (Some n'), d')"
    by blast
  then have rd: "r_data (fst (updateNote ex_db alice 10 patch_title_tags)) = Some n'"
    by (simp add: ok_def)
  from o(1) pt have 1: "n_title n' = trim ''  Inner joins ''" by blast
  from o(2) ps nb have 2: "n_subject n' = n_subject note10" by blast
  from o(3) pm have 3: "n_semester n' = n_semester note10" by blast
  from rd 1 2 3 have "\<exists>n'. r_data (fst (updateNote ex_db alice 10 patch_title_tags)) = Some n' \<and>
         n_title n' = trim ''  Inner joins '' \<and> n_subject n' = n_subject note10 \<and>
         n_semester n' = n_semester note10"
    by blast
  with n10 ev nb show ?thesis by blast
qed

section \<open>Who may update or delete a note\<close>

text \<open>
  Claim C8. For an existing note, an update or a delete by a caller who is neither the
  uploader nor an admin is answered with 403 and changes nothing. For the uploader or an
  admin the check passes: the update then succeeds exactly when the updated note passes
  the schema, and the delete exactly when the media store accepts the deletion of the
  file; otherwise the answer is 500, never 403.
\<close>

theorem C8_owner_or_admin:
  assumes "findById n_id (Notes d) i = Some n"
  shows "(n_uploadedBy n \<noteq> u_id c \<and> u_role c \<noteq> ''admin'' \<longrightarrow>
            updateNote d c i p = (fail 403 ''Not authorized to update this note'', d) \<and>
            deleteNote d c i = (fail 403 ''Not authorized to delete this note'', d)) \<and>
         (n_uploadedBy n = u_id c \<or> u_role c = ''admin'' \<longrightarrow>
            r_status (fst (updateNote d c i p)) = (if note_valid (assign_fields p n) then 200 else 500) \<and>
            r_status (fst (deleteNote d c i)) =
              (if n_cloudinaryPublicId n \<in> set (c_rejects (Cloud d)) then 500 else 200))"
proof (intro conjI impI)
  assume a: "n_uploadedBy n \<noteq> u_id c \<and> u_role c \<noteq> ''admin''"
  with assms show "updateNote d c i p = (fail 403 ''Not authorized to update this note'', d)"
    by (simp add: updateNote_def)
  from a assms show "deleteNote d c i = (fail 403 ''Not authorized to delete this note'', d)"
    by (simp add: deleteNote_def)
next
  assume a: "n_uploadedBy n = u_id c \<or> u_role c = ''admin''"
  from a show "r_status (fst (updateNote d c i p)) = (if note_valid (assign_fields p n) then 200 else 500)"
  proof
    assume "n_uploadedBy n = u_id c"
    with assms show ?thesis by (simp add: updateNote_def Let_def ok_def caught_def)
  next
    assume "u_role c = ''admin''"
    with assms show ?thesis by (simp add: updateNote_def Let_def ok_def caught_def)
  qed
  from a show "r_status (fst (deleteNote d c i)) =
              (if n_cloudinaryPublicId n \<in> set (c_rejects (Cloud d)) then 500 else 200)"
  proof
    assume "n_uploadedBy n = u_id c"
    with assms show ?thesis by (simp add: deleteNote_def destroy_def Let_def ok_def caught_def)
  next
    assume "u_role c = ''admin''"
    with assms show ?thesis by (simp add: deleteNote_def destroy_def Let_def ok_def caught_def)
  qed
qed

theorem C8_owner_or_admin_witness:
  "updateNote ex_db bob 10 patch_title_tags =
     (fail 403 ''Not authorized to update this note'', ex_db) \<and>
   deleteNote ex_db bob 10 = (fail 403 ''Not authorized to delete this note'', ex_db) \<and>
   r_status (fst (updateNote ex_db root 10 patch_title_tags)) = 200 \<and>
   r_status (fst (deleteNote ex_db alice 10)) = 200"
proof -
  have n: "findById n_id (Notes ex_db) 10 = Some note10" by code_simp
  have b: "n_uploadedBy note10 \<noteq> u_id bob \<and> u_role bob \<noteq> ''admin''" by code_simp
  have r: "n_uploadedBy note10 = u_id root \<or> u_role root = ''admin''"
    by (simp add: root_def)
  have a: "n_uploadedBy note10 = u_id alice \<or> u_role alice = ''admin''"
    by (simp add: alice_def note10_def)
  have v: "note_valid (assign_fields patch_title_tags note10)" by code_simp
  have m: "n_cloudinaryPublicId note10 \<notin> set (c_rejects (Cloud ex_db))" by code_simp
  from C8_owner_or_admin [OF n, of bob patch_title_tags] b
  have 1: "updateNote ex_db bob 10 patch_title_tags =
             (fail 403 ''Not authorized to update this note'', ex_db)"
    and 2: "deleteNote ex_db bob 10 = (fail 403 ''Not authorized to delete this note'', ex_db)"
    by blast+
  from C8_owner_or_admin [OF n, of root patch_title_tags] r v
  have 3: "r_status (fst (updateNote ex_db root 10 patch_title_tags)) = 200" by simp
  from C8_owner_or_admin [OF n, of alice patch_title_tags] a m
  have 4: "r_status (fst (deleteNote ex_db alice 10)) = 200" by simp
  from 1 2 3 4 show ?thesis by blast
qed

section \<open>A failing media store during a deletion\<close>

text \<open>
  Claim C5, as the code has it. When the media store rejects the deletion of a note's
  file, the deletion of the note answers 500 and leaves the whole database as it was.
  The deletion of a user who is not an admin handles the user's notes one after the
  other. When the media store rejects the file of one of them, the deletion answers 500
  and keeps the user's row and all collections other than the notes; the rows and files
  of the user's notes that come before the first rejected one are deleted, nothing else
  is, and when the first of the user's notes is the rejected one the database is
  unchanged. Conversely an answer of 500 from the deletion of a user arises only in
  this way.
\<close>

theorem C5_media_store_failure:
  "(\<forall>n. findById n_id (Notes d) i = Some n \<and>
         (n_uploadedBy n = u_id c \<or> u_role c = ''admin'') \<and>
         n_cloudinaryPublicId n \<in> set (c_rejects (Cloud d)) \<longrightarrow>
         deleteNote d c i = (caught DestroyRejected, d)) \<and>
   (\<forall>u n. User_findById d k = Some u \<and> u_role u \<noteq> ''admin'' \<and>
         n \<in> set (Notes d) \<and> n_uploadedBy n = k \<and>
         n_cloudinaryPublicId n \<in> set (c_rejects (Cloud d)) \<longrightarrow>
         (\<exists>d'. deleteUser d k = (caught DestroyRejected, d') \<and>
               Users d' = Users d \<and> Jobs d' = Jobs d \<and> Applications d' = Applications d \<and>
               Bookmarks d' = Bookmarks d \<and> nextId d' = nextId d)) \<and>
   (\<forall>u pre n post. User_findById d k = Some u \<and> u_role u \<noteq> ''admin'' \<and>
         filter (\<lambda>x. n_uploadedBy x = k) (Notes d) = pre @ n # post \<and>
         n_cloudinaryPublicId n \<in> set (c_rejects (Cloud d)) \<and>
         (\<forall>m \<in> set pre. n_cloudinaryPublicId m \<notin> set (c_rejects (Cloud d))) \<longrightarrow>
         deleteUser d k =
           (caught DestroyRejected,
            d\<lparr>Cloud := (Cloud d)\<lparr>c_assets :=
                     fold (\<lambda>m. removeAll (resource_type m, n_cloudinaryPublicId m)) pre
                       (c_assets (Cloud d))\<rparr>,
              Notes := fold (\<lambda>m. deleteFirst (\<lambda>x. n_id x = n_id m)) pre (Notes d)\<rparr>)) \<and>
   (\<forall>u n post. User_findById d k = Some u \<and> u_role u \<noteq> ''admin'' \<and>
         filter (\<lambda>x. n_uploadedBy x = k) (Notes d) = n # post \<and>
         n_cloudinaryPublicId n \<in> set (c_rejects (Cloud d)) \<longrightarrow>
         deleteUser d k = (caught DestroyRejected, d)) \<and>
   (\<forall>r d'. deleteUser d k = (r, d') \<and> r_status r = 500 \<longrightarrow>
      r = caught DestroyRejected \<and>
      Users d' = Users d \<and> Jobs d' = Jobs d \<and> Applications d' = Applications d \<and>
      Bookmarks d' = Bookmarks d \<and>
      (\<exists>pre n post.
          filter (\<lambda>x. n_uploadedBy x = k) (Notes d) = pre @ n # post \<and>
          n_cloudinaryPublicId n \<in> set (c_rejects (Cloud d)) \<and>
          (\<forall>m \<in> set pre. n_cloudinaryPublicId m \<notin> set (c_rejects (Cloud d))) \<and>
          Notes d' = fold (\<lambda>m. deleteFirst (\<lambda>x. n_id x = n_id m)) pre (Notes d) \<and>
          c_assets (Cloud d') =
            fold (\<lambda>m. removeAll (resource_type m, n_cloudinaryPublicId m)) pre (c_assets (Cloud d)) \<and>
          (pre = [] \<longrightarrow> d' = d)))"
proof -
  have note_part: "deleteNote d c i = (caught DestroyRejected, d)"
    if h: "findById n_id (Notes d) i = Some n \<and>
         (n_uploadedBy n = u_id c \<or> u_role c = ''admin'') \<and>
         n_cloudinaryPublicId n \<in> set (c_rejects (Cloud d))" for n
  proof -
    from h have "n_uploadedBy n = u_id c \<or> u_role c = ''admin''" by blast
    then show ?thesis
    proof
      assume "n_uploadedBy n = u_id c"
      with h show ?thesis by (simp add: deleteNote_def destroy_cases)
    next
      assume "u_role c = ''admin''"
      with h show ?thesis by (simp add: deleteNote_def destroy_cases)
    qed
  qed
  have exact: "deleteUser d k =
           (caught DestroyRejected,
            d\<lparr>Cloud := (Cloud d)\<lparr>c_assets :=
                     fold (\<lambda>m. removeAll (resource_type m, n_cloudinaryPublicId m)) pre
                       (c_assets (Cloud d))\<rparr>,
              Notes := fold (\<lambda>m. deleteFirst (\<lambda>x. n_id x = n_id m)) pre (Notes d)\<rparr>)"
    if "User_findById d k = Some u \<and> u_role u \<noteq> ''admin'' \<and>
         filter (\<lambda>x. n_uploadedBy x = k) (Notes d) = pre @ n # post \<and>
         n_cloudinaryPublicId n \<in> set (c_rejects (Cloud d)) \<and>
         (\<forall>m \<in> set pre. n_cloudinaryPublicId m \<notin> set (c_rejects (Cloud d)))" for u pre n post
    using that by (intro deleteUser_reject[of d k u pre n post]) blast+
  have first: "deleteUser d k = (caught DestroyRejected, d)"
    if h: "User_findById d k = Some u \<and> u_role u \<noteq> ''admin'' \<and>
         filter (\<lambda>x. n_uploadedBy x = k) (Notes d) = n # post \<and>
         n_cloudinaryPublicId n \<in> set (c_rejects (Cloud d))" for u n post
  proof -
    from h have "User_findById d k = Some u \<and> u_role u \<noteq> ''admin'' \<and>
         filter (\<lambda>x. n_uploadedBy x = k) (Notes d) = [] @ n # post \<and>
         n_cloudinaryPublicId n \<in> set (c_rejects (Cloud d)) \<and>
         (\<forall>m \<in> set []. n_cloudinaryPublicId m \<notin> set (c_rejects (Cloud d)))"
      by simp
    from exact[OF this] show ?thesis by simp
  qed
  have some: "\<exists>d'. deleteUser d k = (caught DestroyRejected, d') \<and>
               Users d' = Users d \<and> Jobs d' = Jobs d \<and> Applications d' = Applications d \<and>
               Bookmarks d' = Bookmarks d \<and> nextId d' = nextId d"
    if h: "User_findById d k = Some u \<and> u_role u \<noteq> ''admin'' \<and>
         n \<in> set (Notes d) \<and> n_uploadedBy n = k \<and>
         n_cloudinaryPublicId n \<in> set (c_rejects (Cloud d))" for u n
  proof -
    from h have "n \<in> set (filter (\<lambda>x. n_uploadedBy x = k) (Notes d))" by simp
    from first_rejected[OF this, of "\<lambda>x. n_cloudinaryPublicId x \<in> set (c_rejects (Cloud d))"] h
    obtain pre m post where
      sp: "filter (\<lambda>x. n_uploadedBy x = k) (Notes d) = pre @ m # post"
      and rj: "n_cloudinaryPublicId m \<in> set (c_rejects (Cloud d))"
      and ok: "\<forall>y \<in> set pre. n_cloudinaryPublicId y \<notin> set (c_rejects (Cloud d))"
      by blast
    from h sp rj ok have "User_findById d k = Some u \<and> u_role u \<noteq> ''admin'' \<and>
         filter (\<lambda>x. n_uploadedBy x = k) (Notes d) = pre @ m # post \<and>
         n_cloudinaryPublicId m \<in> set (c_rejects (Cloud d)) \<and>
         (\<forall>y \<in> set pre. n_cloudinaryPublicId y \<notin> set (c_rejects (Cloud d)))"
      by blast
    from exact[OF this] show ?thesis by simp
  qed
  have conv: "r = caught DestroyRejected \<and>
      Users d' = Users d \<and> Jobs d' = Jobs d \<and> Applications d' = Applications d \<and>
      Bookmarks d' = Bookmarks d \<and>
      (\<exists>pre n post.
          filter (\<lambda>x. n_uploadedBy x = k) (Notes d) = pre @ n # post \<and>
          n_cloudinaryPublicId n \<in> set (c_rejects (Cloud d)) \<and>
          (\<forall>m \<in> set pre. n_cloudinaryPublicId m \<notin> set (c_rejects (Cloud d))) \<and>
          Notes d' = fold (\<lambda>m. deleteFirst (\<lambda>x. n_id x = n_id m)) pre (Notes d) \<and>
          c_assets (Cloud d') =
            fold (\<lambda>m. removeAll (resource_type m, n_cloudinaryPublicId m)) pre (c_assets (Cloud d)) \<and>
          (pre = [] \<longrightarrow> d' = d))"
    if h: "deleteUser d k = (r, d') \<and> r_status r = 500" for r d'
  proof (cases "User_findById d k")
    case None
    with h have False by (auto simp: deleteUser_def fail_def)
    then show ?thesis ..
  next
    case (Some u)
    then have uk: "u_id u = k" by (rule User_findById_id)
    show ?thesis
    proof (cases "u_role u = ''admin''")
      case True
      with h Some have False by (auto simp: deleteUser_def fail_def)
      then show ?thesis ..
    next
      case False
      obtain eo d1 where run: "delete_user_notes (filter (\<lambda>x. n_uploadedBy x = k) (Notes d)) d = (eo, d1)"
        by (cases "delete_user_notes (filter (\<lambda>x. n_uploadedBy x = k) (Notes d)) d")
      show ?thesis
      proof (cases eo)
        case None
        with h Some False run uk have False
          by (auto simp: deleteUser_def Let_def ok_def)
        then show ?thesis ..
      next
        case e: (Some e)
        with h Some False run uk have rd: "r = caught e" "d' = d1"
          by (auto simp: deleteUser_def Let_def)
        from run e have "delete_user_notes (filter (\<lambda>x. n_uploadedBy x = k) (Notes d)) d = (Some e, d1)"
          by simp
        from delete_user_notes_fail[OF this] rd show ?thesis by blast
      qed
    qed
  qed
  from note_part some exact first conv show ?thesis by blast
qed

text \<open>
  The deletion of Alice, whose second note's file the media store refuses to delete, is
  answered with 500 after the row and the file of her first note are gone.
\<close>

theorem C5_partial_user_delete_counterexample:
  "fst (deleteUser ex_db 1) = caught DestroyRejected \<and>
   Notes ex_db = [note10, note11] \<and>
   Notes (snd (deleteUser ex_db 1)) = [note11] \<and>
   c_assets (Cloud ex_db) = [(''raw'', ''notes/10''), (''image'', ''notes/11'')] \<and>
   c_assets (Cloud (snd (deleteUser ex_db 1))) = [(''image'', ''notes/11'')]"
  by code_simp

theorem C5_media_store_failure_witness:
  "deleteNote ex_db alice 11 = (caught DestroyRejected, ex_db) \<and>
   fst (deleteUser ex_db 1) = caught DestroyRejected \<and>
   r_status (fst (deleteUser ex_db 1)) = 500 \<and>
   Users (snd (deleteUser ex_db 1)) = Users ex_db \<and>
   Bookmarks (snd (deleteUser ex_db 1)) = Bookmarks ex_db"
proof -
  have a: "findById n_id (Notes ex_db) 11 = Some note11 \<and>
           (n_uploadedBy note11 = u_id alice \<or> u_role alice = ''admin'') \<and>
           n_cloudinaryPublicId note11 \<in> set (c_rejects (Cloud ex_db))"
    by code_simp
  have b: "User_findById ex_db 1 = Some (alice\<lparr>u_password := None\<rparr>) \<and>
           u_role (alice\<lparr>u_password := None\<rparr>) \<noteq> ''admin'' \<and>
           note11 \<in> set (Notes ex_db) \<and> n_uploadedBy note11 = 1 \<and>
           n_cloudinaryPublicId note11 \<in> set (c_rejects (Cloud ex_db))"
    by code_simp
  note inst = C5_media_store_failure [of ex_db 11 alice 1]
  from inst a have 1: "deleteNote ex_db alice 11 = (caught DestroyRejected, ex_db)"
    by blast
  from inst b obtain d' where
    run: "deleteUser ex_db 1 = (caught DestroyRejected, d')"
    and fr: "Users d' = Users ex_db" "Bookmarks d' = Bookmarks ex_db"
    by blast
  from run have 2: "fst (deleteUser ex_db 1) = caught DestroyRejected" and d': "snd (deleteUser ex_db 1) = d'"
    by simp_all
  from 2 have 3: "r_status (fst (deleteUser ex_db 1)) = 500" by (simp add: caught_def)
  from 1 2 3 fr show ?thesis unfolding d' by simp
qed

section \<open>Adding and removing a bookmark\<close>

text \<open>
  Claim C6. After a bookmark has been added, the note is reported as bookmarked, and a
  second add for the same user and note, at any later time, fails with 400 and leaves the
  database as it is. A remove that follows the add succeeds; after it the bookmark
  collection is what it was before the add, the check answers false, the note is not in
  the user's bookmarks and the user is not in the note's \<open>bookmarkedBy\<close>. Where the two
  mirrors did not hold the pair before the add, the users and the notes are exactly what
  they were.
\<close>

theorem C6_bookmark_round_trip:
  assumes "addBookmark t d c nid = (r1, d1)" and "r_status r1 = 201"
  shows "checkBookmark d1 c nid = ok 200 None (Some True) \<and>
         (\<forall>t'. addBookmark t' d1 c nid = (fail 400 ''Note already bookmarked'', d1)) \<and>
         (\<exists>d2. removeBookmark d1 c nid =
                  (ok 200 (Some (Text ''Bookmark removed successfully'')) None, d2) \<and>
               checkBookmark d2 c nid = ok 200 None (Some False) \<and>
               Bookmarks d2 = Bookmarks d \<and>
               (\<forall>u. findById u_id (Users d2) (u_id c) = Some u \<longrightarrow> nid \<notin> set (u_bookmarks u)) \<and>
               (\<forall>m. findById n_id (Notes d2) nid = Some m \<longrightarrow> u_id c \<notin> set (n_bookmarkedBy m)) \<and>
               ((\<forall>u. findById u_id (Users d) (u_id c) = Some u \<longrightarrow> nid \<notin> set (u_bookmarks u))
                  \<longrightarrow> Users d2 = Users d) \<and>
               ((\<forall>m. findById n_id (Notes d) nid = Some m \<longrightarrow> u_id c \<notin> set (n_bookmarkedBy m))
                  \<longrightarrow> Notes d2 = Notes d))"
proof -
  let ?P = "\<lambda>b. b_user b = u_id c \<and> b_note b = nid"
  let ?b = "\<lparr>b_id = nextId d, b_user = u_id c, b_note = nid, b_createdAt = t\<rparr>"
  let ?fu = "\<lambda>u. u\<lparr>u_bookmarks := u_bookmarks u @ [nid]\<rparr>"
  let ?fn = "\<lambda>x. x\<lparr>n_bookmarkedBy := n_bookmarkedBy x @ [u_id c]\<rparr>"
  let ?gu = "\<lambda>u. u\<lparr>u_bookmarks := removeAll nid (u_bookmarks u)\<rparr>"
  let ?gn = "\<lambda>x. x\<lparr>n_bookmarkedBy := removeAll (u_id c) (n_bookmarkedBy x)\<rparr>"
  from assms obtain n where
    n: "findById n_id (Notes d) nid = Some n"
    and none: "Bookmark_findOne d (u_id c) nid = None"
    and d1: "d1 = d\<lparr>Bookmarks := Bookmarks d @ [?b], nextId := Suc (nextId d),
                    Users := updateById u_id (u_id c) ?fu (Users d),
                    Notes := updateById n_id nid ?fn (Notes d)\<rparr>"
    by (rule addBookmark_201)
  from none have fnone: "find ?P (Bookmarks d) = None" by (simp add: Bookmark_findOne_def)
  have B1: "Bookmarks d1 = Bookmarks d @ [?b]" and U1: "Users d1 = updateById u_id (u_id c) ?fu (Users d)"
    and N1: "Notes d1 = updateById n_id nid ?fn (Notes d)"
    by (simp_all add: d1)
  have found: "Bookmark_findOne d1 (u_id c) nid = Some ?b"
    unfolding Bookmark_findOne_def B1 by (rule find_append_last[OF fnone]) simp
  have n1: "findById n_id (Notes d1) nid = Some (?fn n)"
    unfolding N1 using findById_updateById[of n_id ?fn nid "Notes d" nid] n by simp
  have chk1: "checkBookmark d1 c nid = ok 200 None (Some True)"
    by (simp add: checkBookmark_def found)
  have second: "addBookmark t' d1 c nid = (fail 400 ''Note already bookmarked'', d1)" for t'
    by (simp add: addBookmark_def n1 found)
  let ?d2 = "d1\<lparr>Bookmarks := deleteFirst ?P (Bookmarks d1),
                 Users := updateById u_id (u_id c) ?gu (Users d1),
                 Notes := updateById n_id nid ?gn (Notes d1)\<rparr>"
  have rem: "removeBookmark d1 c nid =
               (ok 200 (Some (Text ''Bookmark removed successfully'')) None, ?d2)"
    by (simp add: removeBookmark_def found Let_def)
  have B2: "Bookmarks ?d2 = Bookmarks d"
    using deleteFirst_append_last[OF fnone, of ?b] by (simp add: B1)
  have U2: "Users ?d2 = updateById u_id (u_id c) (\<lambda>u. ?gu (?fu u)) (Users d)"
    using updateById_twice[of u_id ?fu "u_id c" ?gu "Users d"] by (simp add: U1)
  have N2: "Notes ?d2 = updateById n_id nid (\<lambda>x. ?gn (?fn x)) (Notes d)"
    using updateById_twice[of n_id ?fn nid ?gn "Notes d"] by (simp add: N1)
  have chk2: "checkBookmark ?d2 c nid = ok 200 None (Some False)"
    using fnone by (simp add: checkBookmark_def Bookmark_findOne_def B2)
  have mu: "nid \<notin> set (u_bookmarks u)" if "findById u_id (Users ?d2) (u_id c) = Some u" for u
  proof (cases "findById u_id (Users d) (u_id c)")
    case None
    with that findById_updateById[of u_id "\<lambda>u. ?gu (?fu u)" "u_id c" "Users d" "u_id c"]
    show ?thesis unfolding U2 by simp
  next
    case (Some u0)
    with that findById_updateById[of u_id "\<lambda>u. ?gu (?fu u)" "u_id c" "Users d" "u_id c"]
    have "u = ?gu (?fu u0)" unfolding U2 by simp
    then show ?thesis by simp
  qed
  have mn: "u_id c \<notin> set (n_bookmarkedBy m)" if "findById n_id (Notes ?d2) nid = Some m" for m
  proof (cases "findById n_id (Notes d) nid")
    case None
    with that findById_updateById[of n_id "\<lambda>x. ?gn (?fn x)" nid "Notes d" nid]
    show ?thesis unfolding N2 by simp
  next
    case (Some m0)
    with that findById_updateById[of n_id "\<lambda>x. ?gn (?fn x)" nid "Notes d" nid]
    have "m = ?gn (?fn m0)" unfolding N2 by simp
    then show ?thesis by simp
  qed
  have ru: "Users ?d2 = Users d"
    if "\<forall>u. findById u_id (Users d) (u_id c) = Some u \<longrightarrow> nid \<notin> set (u_bookmarks u)"
    unfolding U2 using that by (intro updateById_same) simp
  have rn: "Notes ?d2 = Notes d"
    if "\<forall>m. findById n_id (Notes d) nid = Some m \<longrightarrow> u_id c \<notin> set (n_bookmarkedBy m)"
    unfolding N2 using that by (intro updateById_same) simp
  have trip: "\<exists>d2. removeBookmark d1 c nid =
                  (ok 200 (Some (Text ''Bookmark removed successfully'')) None, d2) \<and>
               checkBookmark d2 c nid = ok 200 None (Some False) \<and>
               Bookmarks d2 = Bookmarks d \<and>
               (\<forall>u. findById u_id (Users d2) (u_id c) = Some u \<longrightarrow> nid \<notin> set (u_bookmarks u)) \<and>
               (\<forall>m. findById n_id (Notes d2) nid = Some m \<longrightarrow> u_id c \<notin> set (n_bookmarkedBy m)) \<and>
               ((\<forall>u. findById u_id (Users d) (u_id c) = Some u \<longrightarrow> nid \<notin> set (u_bookmarks u))
                  \<longrightarrow> Users d2 = Users d) \<and>
               ((\<forall>m. findById n_id (Notes d) nid = Some m \<longrightarrow> u_id c \<notin> set (n_bookmarkedBy m))
                  \<longrightarrow> Notes d2 = Notes d)"
    apply (rule exI[of _ ?d2])
    apply (intro conjI allI impI)
    using rem chk2 B2 mu mn ru rn apply blast+
    done
  from chk1 second trip show ?thesis by blast
qed

theorem C6_bookmark_round_trip_witness:
  "r_status (fst (addBookmark 800 ex_db alice 11)) = 201 \<and>
   addBookmark 900 (snd (addBookmark 800 ex_db alice 11)) alice 11 =
     (fail 400 ''Note already bookmarked'', snd (addBookmark 800 ex_db alice 11)) \<and>
   r_status (fst (removeBookmark (snd (addBookmark 800 ex_db alice 11)) alice 11)) = 200 \<and>
   checkBookmark (snd (removeBookmark (snd (addBookmark 800 ex_db alice 11)) alice 11)) alice 11 =
     ok 200 None (Some False) \<and>
   Bookmarks (snd (removeBookmark (snd (addBookmark 800 ex_db alice 11)) alice 11)) = [bm30]"
proof -
  let ?r1 = "fst (addBookmark 800 ex_db alice 11)"
  let ?d1 = "snd (addBookmark 800 ex_db alice 11)"
  have run: "addBookmark 800 ex_db alice 11 = (?r1, ?d1)" by simp
  have st: "r_status ?r1 = 201" by code_simp
  have bm: "Bookmarks ex_db = [bm30]" by (simp add: ex_db_def)
  note inst = C6_bookmark_round_trip [OF run st]
  from inst have 1: "addBookmark 900 ?d1 alice 11 = (fail 400 ''Note already bookmarked'', ?d1)"
    by blast
  from inst obtain d2 where
    rm: "removeBookmark ?d1 alice 11 = (ok 200 (Some (Text ''Bookmark removed successfully'')) None, d2)"
    and ck: "checkBookmark d2 alice 11 = ok 200 None (Some False)"
    and bk: "Bookmarks d2 = Bookmarks ex_db"
    by blast
  from rm have d2: "snd (removeBookmark ?d1 alice 11) = d2"
    and s2: "r_status (fst (removeBookmark ?d1 alice 11)) = 200"
    by (simp_all add: ok_def)
  from st 1 s2 ck bk bm show ?thesis unfolding d2 by simp
qed

section \<open>Bookmarks of a deleted note\<close>

text \<open>
  Claim C9. A successful deletion of a note removes the note's row and takes the note out
  of its uploader's \<open>uploadedNotes\<close>, but it leaves the bookmark collection and every
  user's \<open>bookmarks\<close> as they are. So the bookmark check answers after the deletion what
  it answered before, true for a user who had bookmarked the note, and the only place
  where the dangling bookmark does not show is the list of the user's bookmarks, which is
  the list from before the deletion without the deleted note. (Object ids are unique
  within the note collection.)
\<close>

theorem C9_dangling_bookmarks:
  assumes "deleteNote d c i = (r, d')" and "r_status r = 200"
    and "distinct (map n_id (Notes d))"
  shows "findById n_id (Notes d') i = None \<and>
         (\<forall>k. k \<noteq> i \<longrightarrow> findById n_id (Notes d') k = findById n_id (Notes d) k) \<and>
         (\<exists>n. findById n_id (Notes d) i = Some n \<and>
              (\<forall>u. findById u_id (Users d) (n_uploadedBy n) = Some u \<longrightarrow>
                   (\<exists>u'. findById u_id (Users d') (n_uploadedBy n) = Some u' \<and>
                         u_uploadedNotes u' = removeAll i (u_uploadedNotes u)))) \<and>
         Bookmarks d' = Bookmarks d \<and>
         map u_bookmarks (Users d') = map u_bookmarks (Users d) \<and>
         (\<forall>c'. checkBookmark d' c' i = checkBookmark d c' i) \<and>
         (\<forall>c' b. b \<in> set (Bookmarks d) \<and> b_user b = u_id c' \<and> b_note b = i \<longrightarrow>
              checkBookmark d' c' i = ok 200 None (Some True)) \<and>
         (\<forall>c' ns. r_data (getMyBookmarks d c') = Some ns \<longrightarrow>
              getMyBookmarks d' c' = ok 200 None (Some (filter (\<lambda>(n, p). n_id n \<noteq> i) ns)))"
proof -
  from assms(1,2) obtain n where
    n: "findById n_id (Notes d) i = Some n"
    and d': "d' = d\<lparr>Cloud := (Cloud d)\<lparr>c_assets := removeAll (resource_type n, n_cloudinaryPublicId n)
                                              (c_assets (Cloud d))\<rparr>,
            Users := updateById u_id (n_uploadedBy n)
                       (\<lambda>u. u\<lparr>u_uploadedNotes := removeAll (n_id n) (u_uploadedNotes u)\<rparr>) (Users d),
            Notes := deleteFirst (\<lambda>x. n_id x = i) (Notes d)\<rparr>"
    by (rule deleteNote_200)
  from n have ni: "n_id n = i" by (rule findById_ident)
  let ?f = "\<lambda>u. u\<lparr>u_uploadedNotes := removeAll i (u_uploadedNotes u)\<rparr>"
  have U: "Users d' = updateById u_id (n_uploadedBy n) ?f (Users d)"
    and N: "Notes d' = deleteFirst (\<lambda>x. n_id x = i) (Notes d)"
    and B: "Bookmarks d' = Bookmarks d"
    by (simp_all add: d' ni)
  have gone: "findById n_id (Notes d') i = None"
    unfolding N by (rule findById_deleteFirst_same[OF assms(3)])
  have others: "findById n_id (Notes d') k = findById n_id (Notes d) k" if "k \<noteq> i" for k
    unfolding N by (rule findById_deleteFirst_other[OF that])
  have owner: "\<exists>u'. findById u_id (Users d') (n_uploadedBy n) = Some u' \<and>
                     u_uploadedNotes u' = removeAll i (u_uploadedNotes u)"
    if "findById u_id (Users d) (n_uploadedBy n) = Some u" for u
    using that findById_updateById[of u_id ?f "n_uploadedBy n" "Users d" "n_uploadedBy n"]
    unfolding U by simp
  have ub: "map u_bookmarks (Users d') = map u_bookmarks (Users d)"
    unfolding U by (rule map_updateById) simp
  have chk: "checkBookmark d' c' i = checkBookmark d c' i" for c'
    by (simp add: checkBookmark_def Bookmark_findOne_def B)
  have still: "checkBookmark d' c' i = ok 200 None (Some True)"
    if "b \<in> set (Bookmarks d) \<and> b_user b = u_id c' \<and> b_note b = i" for c' b
  proof -
    from that have "find (\<lambda>b. b_user b = u_id c' \<and> b_note b = i) (Bookmarks d) \<noteq> None"
      by (auto simp: find_None_iff)
    then show ?thesis by (simp add: checkBookmark_def Bookmark_findOne_def B)
  qed
  have pop: "populate_user [''name'', ''email'', ''branch''] d' k =
             populate_user [''name'', ''email'', ''branch''] d k" for k
    using U by (rule populate_user_uploadedNotes)
  have listing: "getMyBookmarks d' c' = ok 200 None (Some (filter (\<lambda>(n, p). n_id n \<noteq> i) ns))"
    if "r_data (getMyBookmarks d c') = Some ns" for c' ns
  proof -
    let ?bs = "sort_dir True b_createdAt (filter (\<lambda>b. b_user b = u_id c') (Bookmarks d))"
    let ?F = "\<lambda>b. map_option
                (\<lambda>n. (n, populate_user [''name'', ''email'', ''branch''] d (n_uploadedBy n)))
                (findById n_id (Notes d) (b_note b))"
    have old: "ns = map the (filter (\<lambda>x. x \<noteq> None) (map ?F ?bs))"
      using that by (simp add: getMyBookmarks_def Let_def ok_def)
    have F': "map_option
                (\<lambda>n. (n, populate_user [''name'', ''email'', ''branch''] d' (n_uploadedBy n)))
                (findById n_id (Notes d') (b_note b)) = (if b_note b = i then None else ?F b)"
      for b :: bookmark
      using gone others[of "b_note b"] by (simp add: pop)
    have new: "getMyBookmarks d' c' =
          ok 200 None (Some (map the (filter (\<lambda>x. x \<noteq> None)
                                        (map (\<lambda>b. if b_note b = i then None else ?F b) ?bs))))"
      by (simp add: getMyBookmarks_def Let_def B F')
    have key: "n_id m = b_note b" if "?F b = Some (m, p)" for b :: bookmark and m p
      using that by (auto dest: findById_ident)
    from hide_dangling[of ?F b_note i ?bs, OF key] old new show ?thesis by simp
  qed
  from n gone others owner B ub chk still listing show ?thesis by blast
qed

theorem C9_dangling_bookmarks_witness:
  "r_status (fst (deleteNote ex_db alice 10)) = 200 \<and>
   distinct (map n_id (Notes ex_db)) \<and>
   findById n_id (Notes (snd (deleteNote ex_db alice 10))) 10 = None \<and>
   checkBookmark (snd (deleteNote ex_db alice 10)) bob 10 = ok 200 None (Some True) \<and>
   getMyBookmarks ex_db bob = ok 200 None (Some [(note10, Some alice_profile)]) \<and>
   getMyBookmarks (snd (deleteNote ex_db alice 10)) bob = ok 200 None (Some [])"
proof -
  let ?r = "fst (deleteNote ex_db alice 10)"
  let ?d = "snd (deleteNote ex_db alice 10)"
  have run: "deleteNote ex_db alice 10 = (?r, ?d)" by simp
  have st: "r_status ?r = 200" by code_simp
  have di: "distinct (map n_id (Notes ex_db))" by code_simp
  have bm: "bm30 \<in> set (Bookmarks ex_db) \<and> b_user bm30 = u_id bob \<and> b_note bm30 = 10"
    by code_simp
  have old: "getMyBookmarks ex_db bob = ok 200 None (Some [(note10, Some alice_profile)])"
    by code_simp
  then have od: "r_data (getMyBookmarks ex_db bob) = Some [(note10, Some alice_profile)]"
    by (simp add: ok_def)
  note inst = C9_dangling_bookmarks [OF run st di]
  from inst have 1: "findById n_id (Notes ?d) 10 = None" by blast
  from inst bm have 2: "checkBookmark ?d bob 10 = ok 200 None (Some True)" by blast
  from inst od have "getMyBookmarks ?d bob =
      ok 200 None (Some (filter (\<lambda>(n, p). n_id n \<noteq> 10) [(note10, Some alice_profile)]))"
    by blast
  then have 3: "getMyBookmarks ?d bob = ok 200 None (Some [])"
    by (simp add: note10_def)
  from st di 1 2 old 3 show ?thesis by blast
qed

end
